theory Spec2Isabelle
  imports Complex_Main
begin

section \<open>JavaScript numbers\<close>

text \<open>
  The engine computes with JavaScript numbers. A number is modelled as a real, or one of
  the three special values the source can produce and test for: \<open>Infinity\<close>,
  \<open>-Infinity\<close> and \<open>NaN\<close>. Finite results are exact reals: rounding to
  binary64, overflow to an infinity and the sign of zero are not modelled (\<open>1 / -0\<close>
  is read as \<open>1 / 0\<close>). Everything the source decides by a special value (a division
  by zero, \<open>0 / 0\<close>, a comparison with \<open>NaN\<close>, \<open>x || 0\<close>) is a branch
  of the operations below.
\<close>

datatype jsnum = Fin real | PInf | NInf | NaN

fun isFinite :: "jsnum \<Rightarrow> bool" where
  "isFinite (Fin a) = True"
| "isFinite PInf = False"
| "isFinite NInf = False"
| "isFinite NaN = False"

fun isNaN :: "jsnum \<Rightarrow> bool" where
  "isNaN NaN = True"
| "isNaN (Fin a) = False"
| "isNaN PInf = False"
| "isNaN NInf = False"

text \<open>The sign of a number that is not \<open>NaN\<close>: \<open>1\<close>, \<open>0\<close> or \<open>-1\<close>.\<close>

fun jsign :: "jsnum \<Rightarrow> real" where
  "jsign (Fin a) = sgn a"
| "jsign PInf = 1"
| "jsign NInf = - 1"
| "jsign NaN = 0"

fun jneg :: "jsnum \<Rightarrow> jsnum" where
  "jneg (Fin a) = Fin (- a)"
| "jneg PInf = NInf"
| "jneg NInf = PInf"
| "jneg NaN = NaN"

fun jadd :: "jsnum \<Rightarrow> jsnum \<Rightarrow> jsnum" where
  "jadd NaN b = NaN"
| "jadd a NaN = NaN"
| "jadd (Fin a) (Fin b) = Fin (a + b)"
| "jadd PInf NInf = NaN"
| "jadd NInf PInf = NaN"
| "jadd PInf b = PInf"
| "jadd a PInf = PInf"
| "jadd NInf b = NInf"
| "jadd a NInf = NInf"

fun jmul :: "jsnum \<Rightarrow> jsnum \<Rightarrow> jsnum" where
  "jmul NaN b = NaN"
| "jmul a NaN = NaN"
| "jmul (Fin a) (Fin b) = Fin (a * b)"
| "jmul a b =
     (if jsign a * jsign b = 0 then NaN
      else if 0 < jsign a * jsign b then PInf else NInf)"

fun jdiv :: "jsnum \<Rightarrow> jsnum \<Rightarrow> jsnum" where
  "jdiv NaN b = NaN"
| "jdiv a NaN = NaN"
| "jdiv (Fin a) (Fin b) =
     (if b = 0 then (if a = 0 then NaN else if 0 < a then PInf else NInf)
      else Fin (a / b))"
| "jdiv (Fin a) b = Fin 0"
| "jdiv a (Fin b) = (if (0 \<le> b) = (a = PInf) then PInf else NInf)"
| "jdiv a b = NaN"

text \<open>\<open>a < b\<close> of the source: false as soon as an operand is \<open>NaN\<close>.\<close>

fun jlt :: "jsnum \<Rightarrow> jsnum \<Rightarrow> bool" where
  "jlt NaN b = False"
| "jlt a NaN = False"
| "jlt (Fin a) (Fin b) = (a < b)"
| "jlt a NInf = False"
| "jlt NInf b = True"
| "jlt PInf b = False"
| "jlt a PInf = True"

text \<open>\<open>a <= b\<close> of the source.\<close>

fun jle :: "jsnum \<Rightarrow> jsnum \<Rightarrow> bool" where
  "jle NaN b = False"
| "jle a NaN = False"
| "jle a b = (a = b \<or> jlt a b)"

text \<open>
  The arithmetic and comparison operators of the source are written with the usual
  symbols: \<open>a + b\<close>, \<open>a - b\<close>, \<open>a * b\<close>, \<open>a / b\<close>, \<open>- a\<close>,
  \<open>a < b\<close> (and \<open>a > b\<close>) on \<open>jsnum\<close> are the operations above.
\<close>

instantiation jsnum :: "{plus, minus, uminus, times, inverse, ord}"
begin

definition plus_jsnum :: "jsnum \<Rightarrow> jsnum \<Rightarrow> jsnum" where
  "plus_jsnum a b = jadd a b"

definition uminus_jsnum :: "jsnum \<Rightarrow> jsnum" where
  "uminus_jsnum a = jneg a"

definition minus_jsnum :: "jsnum \<Rightarrow> jsnum \<Rightarrow> jsnum" where
  "minus_jsnum a b = jadd a (jneg b)"

definition times_jsnum :: "jsnum \<Rightarrow> jsnum \<Rightarrow> jsnum" where
  "times_jsnum a b = jmul a b"

definition divide_jsnum :: "jsnum \<Rightarrow> jsnum \<Rightarrow> jsnum" where
  "divide_jsnum a b = jdiv a b"

definition inverse_jsnum :: "jsnum \<Rightarrow> jsnum" where
  "inverse_jsnum a = jdiv (Fin 1) a"

definition less_jsnum :: "jsnum \<Rightarrow> jsnum \<Rightarrow> bool" where
  "less_jsnum a b = jlt a b"

definition less_eq_jsnum :: "jsnum \<Rightarrow> jsnum \<Rightarrow> bool" where
  "less_eq_jsnum a b = jle a b"

instance ..

end

text \<open>\<open>a === b\<close> on numbers: \<open>NaN\<close> is equal to nothing, itself included.\<close>

definition jeq :: "jsnum \<Rightarrow> jsnum \<Rightarrow> bool" where
  "jeq a b = (a = b \<and> a \<noteq> NaN)"

text \<open>\<open>a || d\<close> on a number \<open>a\<close>: \<open>0\<close> and \<open>NaN\<close> are falsy.\<close>

definition jor :: "jsnum \<Rightarrow> jsnum \<Rightarrow> jsnum" where
  "jor a d = (if a = NaN \<or> a = Fin 0 then d else a)"

text \<open>
  A property that an object may lack is an \<open>option\<close>: reading a missing property
  gives \<open>undefined\<close>, which arithmetic converts to \<open>NaN\<close>.
\<close>

fun ToNumber :: "jsnum option \<Rightarrow> jsnum" where
  "ToNumber None = NaN"
| "ToNumber (Some a) = a"

text \<open>The length of an array, a count or an index, as a number.\<close>

definition num :: "nat \<Rightarrow> jsnum" where
  "num n = Fin (real n)"

subsection \<open>The functions of \<open>Math\<close>\<close>

fun Math_max :: "jsnum \<Rightarrow> jsnum \<Rightarrow> jsnum" where
  "Math_max NaN b = NaN"
| "Math_max a NaN = NaN"
| "Math_max a b = (if jlt a b then b else a)"

fun Math_min :: "jsnum \<Rightarrow> jsnum \<Rightarrow> jsnum" where
  "Math_min NaN b = NaN"
| "Math_min a NaN = NaN"
| "Math_min a b = (if jlt b a then b else a)"

text \<open>\<open>Math.max(...xs)\<close> and \<open>Math.min(...xs)\<close>: of no argument they are
  \<open>-Infinity\<close> and \<open>Infinity\<close>.\<close>

definition Math_max_list :: "jsnum list \<Rightarrow> jsnum" where
  "Math_max_list xs = foldl Math_max NInf xs"

definition Math_min_list :: "jsnum list \<Rightarrow> jsnum" where
  "Math_min_list xs = foldl Math_min PInf xs"

fun Math_abs :: "jsnum \<Rightarrow> jsnum" where
  "Math_abs (Fin a) = Fin \<bar>a\<bar>"
| "Math_abs PInf = PInf"
| "Math_abs NInf = PInf"
| "Math_abs NaN = NaN"

fun Math_sqrt :: "jsnum \<Rightarrow> jsnum" where
  "Math_sqrt (Fin a) = (if a < 0 then NaN else Fin (sqrt a))"
| "Math_sqrt PInf = PInf"
| "Math_sqrt NInf = NaN"
| "Math_sqrt NaN = NaN"

text \<open>\<open>Math.pow(a, n)\<close> for the exponents the source uses, \<open>2\<close> and \<open>3\<close>.\<close>

primrec Math_pow :: "jsnum \<Rightarrow> nat \<Rightarrow> jsnum" where
  "Math_pow a 0 = Fin 1"
| "Math_pow a (Suc n) = a * Math_pow a n"

fun Math_hypot :: "jsnum \<Rightarrow> jsnum \<Rightarrow> jsnum" where
  "Math_hypot (Fin a) (Fin b) = Fin (sqrt (a * a + b * b))"
| "Math_hypot PInf b = PInf"
| "Math_hypot NInf b = PInf"
| "Math_hypot a PInf = PInf"
| "Math_hypot a NInf = PInf"
| "Math_hypot a b = NaN"

fun Math_log2 :: "jsnum \<Rightarrow> jsnum" where
  "Math_log2 (Fin a) = (if a < 0 then NaN else if a = 0 then NInf else Fin (log 2 a))"
| "Math_log2 PInf = PInf"
| "Math_log2 NInf = NaN"
| "Math_log2 NaN = NaN"

fun Math_exp :: "jsnum \<Rightarrow> jsnum" where
  "Math_exp (Fin a) = Fin (exp a)"
| "Math_exp PInf = PInf"
| "Math_exp NInf = Fin 0"
| "Math_exp NaN = NaN"

fun Math_acos :: "jsnum \<Rightarrow> jsnum" where
  "Math_acos (Fin a) = (if - 1 \<le> a \<and> a \<le> 1 then Fin (arccos a) else NaN)"
| "Math_acos a = NaN"

text \<open>The angle of the vector \<open>(x, y)\<close>, in \<open>(-pi, pi]\<close>.\<close>

definition atan2 :: "real \<Rightarrow> real \<Rightarrow> real" where
  "atan2 y x =
     (if 0 < x then arctan (y / x)
      else if x < 0 then (if 0 \<le> y then arctan (y / x) + pi else arctan (y / x) - pi)
      else if 0 < y then pi / 2 else if y < 0 then - (pi / 2) else 0)"

fun Math_atan2 :: "jsnum \<Rightarrow> jsnum \<Rightarrow> jsnum" where
  "Math_atan2 NaN x = NaN"
| "Math_atan2 y NaN = NaN"
| "Math_atan2 (Fin y) (Fin x) = Fin (atan2 y x)"
| "Math_atan2 (Fin y) PInf = Fin 0"
| "Math_atan2 (Fin y) NInf = (if 0 \<le> y then Fin pi else Fin (- pi))"
| "Math_atan2 PInf (Fin x) = Fin (pi / 2)"
| "Math_atan2 NInf (Fin x) = Fin (- (pi / 2))"
| "Math_atan2 PInf PInf = Fin (pi / 4)"
| "Math_atan2 NInf PInf = Fin (- (pi / 4))"
| "Math_atan2 PInf NInf = Fin (3 * pi / 4)"
| "Math_atan2 NInf NInf = Fin (- (3 * pi / 4))"

text \<open>\<open>Math.round\<close> rounds to the nearest integer, a half upwards.\<close>

fun Math_round :: "jsnum \<Rightarrow> jsnum" where
  "Math_round (Fin a) = Fin (of_int \<lfloor>a + 1 / 2\<rfloor>)"
| "Math_round a = a"

text \<open>\<open>a % b\<close>: the remainder has the sign of the dividend.\<close>

definition trunc :: "real \<Rightarrow> int" where
  "trunc r = (if 0 \<le> r then \<lfloor>r\<rfloor> else \<lceil>r\<rceil>)"

fun jrem :: "jsnum \<Rightarrow> jsnum \<Rightarrow> jsnum" where
  "jrem (Fin a) (Fin b) = (if b = 0 then NaN else Fin (a - b * of_int (trunc (a / b))))"
| "jrem (Fin a) PInf = Fin a"
| "jrem (Fin a) NInf = Fin a"
| "jrem a b = NaN"

subsection \<open>Array helpers\<close>

text \<open>
  \<open>xs.reduce(f)\<close> with no initial value throws a \<open>TypeError\<close> on an empty
  array: \<open>None\<close> is the exception. \<open>xs.reduce(f, a)\<close> is \<open>foldl f a xs\<close>.
\<close>

fun reduce1 :: "('a \<Rightarrow> 'a \<Rightarrow> 'a) \<Rightarrow> 'a list \<Rightarrow> 'a option" where
  "reduce1 f [] = None"
| "reduce1 f (a # xs) = Some (foldl f a xs)"

text \<open>The sum \<open>xs.reduce((a, b) => a + b, 0)\<close>.\<close>

definition sum0 :: "jsnum list \<Rightarrow> jsnum" where
  "sum0 xs = foldl (\<lambda>a b. a + b) (Fin 0) xs"

text \<open>The loop \<open>for (let i = a; i < n; i++) out.push(f(i))\<close>: the array it fills.\<close>

definition loop :: "nat \<Rightarrow> nat \<Rightarrow> (nat \<Rightarrow> 'a) \<Rightarrow> 'a list" where
  "loop a n f = map f [a..<n]"

text \<open>The same loop with a \<open>continue\<close>: \<open>f i = None\<close> pushes nothing.\<close>

definition loop_opt :: "nat \<Rightarrow> nat \<Rightarrow> (nat \<Rightarrow> 'a option) \<Rightarrow> 'a list" where
  "loop_opt a n f = List.map_filter f [a..<n]"

section \<open>The legacy verifier \<open>HumanVerifier\<close>\<close>

text \<open>
  The version 2 class records one gesture on the checkbox and displays the record. The
  model has its constructor, the press and move handlers and \<open>resetState\<close>; the record
  it displays at release (\<open>handleMouseUp\<close>, \<open>handleTouchEnd\<close>,
  \<open>sendDataToServer\<close>), the device information and the \<open>target\<close> of an event are
  not modelled.
\<close>

text \<open>A touch of \<open>e.changedTouches\<close> and a mouse event.\<close>

record touch =
  clientX :: jsnum
  clientY :: jsnum
  force :: jsnum

record mouseEvent =
  clientX :: jsnum
  clientY :: jsnum
  button :: jsnum

text \<open>What \<open>getTouchData\<close> and \<open>getMouseData\<close> return (\<open>x\<close>, \<open>y\<close>,
  \<open>timestamp\<close> and, for a touch, \<open>pressure\<close>, which is \<open>null\<close> for no force).\<close>

record sample =
  sx :: jsnum
  sy :: jsnum
  timestamp :: jsnum
  pressure :: "jsnum option option"

definition getTouchData :: "touch list \<Rightarrow> jsnum \<Rightarrow> sample option" where
  "getTouchData changedTouches now =
     (case changedTouches of
        [] \<Rightarrow> None
      | c # cs \<Rightarrow>
          Some \<lparr> sx = Math_round (touch.clientX c), sy = Math_round (touch.clientY c),
                 timestamp = now,
                 pressure = Some (if force c = NaN \<or> force c = Fin 0 then None
                                  else Some (force c)) \<rparr>)"

definition getMouseData :: "mouseEvent \<Rightarrow> jsnum \<Rightarrow> sample" where
  "getMouseData e now =
     \<lparr> sx = Math_round (mouseEvent.clientX e), sy = Math_round (mouseEvent.clientY e),
       timestamp = now, pressure = None \<rparr>"

text \<open>\<open>this.dataObject\<close> is \<open>{}\<close> (\<open>None\<close>) or the record of the gesture in
  progress. Of the record the model keeps what the handlers below read or write: its
  \<open>type\<close> (\<open>gestureType\<close> here), \<open>startTimestamp\<close> and \<open>touchStart\<close> or
  \<open>mouseDown\<close>. Its \<open>moveEvents\<close> is the array \<open>this.moveEvents\<close> itself.\<close>

record dataObject =
  gestureType :: string
  startTimestamp :: jsnum
  startData :: "sample option"

record HumanVerifier =
  isTracking :: bool
  dataObject :: "dataObject option"
  moveEvents :: "sample list"
  touchEndBlock :: jsnum
  BLOCK_DURATION :: jsnum
  moveSampleRate :: jsnum
  moveCounter :: jsnum

text \<open>The constructor; \<open>moveSampleRate\<close> is \<open>5\<close> when the argument is not given.\<close>

definition new_HumanVerifier :: "jsnum option \<Rightarrow> HumanVerifier" where
  "new_HumanVerifier rate =
     \<lparr> isTracking = False, dataObject = None, moveEvents = [], touchEndBlock = Fin 0,
       BLOCK_DURATION = Fin 300,
       moveSampleRate = (case rate of None \<Rightarrow> Fin 5 | Some r \<Rightarrow> r),
       moveCounter = Fin 0 \<rparr>"

text \<open>In the handlers \<open>now\<close> is what \<open>Date.now()\<close> returns; a handler that
  reads the clock more than once is given the one reading.\<close>

definition handleTouchStart :: "HumanVerifier \<Rightarrow> touch list \<Rightarrow> jsnum \<Rightarrow> HumanVerifier" where
  "handleTouchStart v changedTouches now =
     (if isTracking v then v
      else v\<lparr> touchEndBlock := Fin 0, isTracking := True, moveEvents := [],
              moveCounter := Fin 0,
              dataObject := Some \<lparr> gestureType = ''TOUCH'', startTimestamp = now,
                                     startData = getTouchData changedTouches now \<rparr> \<rparr>)"

definition handleTouchMove :: "HumanVerifier \<Rightarrow> touch list \<Rightarrow> jsnum \<Rightarrow> HumanVerifier" where
  "handleTouchMove v changedTouches now =
     (if \<not> isTracking v \<or> map_option gestureType (dataObject v) \<noteq> Some ''TOUCH'' then v
      else
        let v1 = v\<lparr> moveCounter := moveCounter v + Fin 1 \<rparr>
        in if \<not> jeq (jrem (moveCounter v1) (moveSampleRate v1)) (Fin 0) then v1
           else case getTouchData changedTouches now of
                  None \<Rightarrow> v1
                | Some d \<Rightarrow> v1\<lparr> moveEvents := moveEvents v1 @ [d] \<rparr>)"

definition handleMouseDown :: "HumanVerifier \<Rightarrow> mouseEvent \<Rightarrow> jsnum \<Rightarrow> HumanVerifier" where
  "handleMouseDown v e now =
     (if now < touchEndBlock v then v
      else if \<not> jeq (button e) (Fin 0) \<or> isTracking v then v
      else v\<lparr> isTracking := True, moveEvents := [], moveCounter := Fin 0,
              dataObject := Some \<lparr> gestureType = ''MOUSE'', startTimestamp = now,
                                     startData = Some (getMouseData e now) \<rparr> \<rparr>)"

definition handleMouseMove :: "HumanVerifier \<Rightarrow> mouseEvent \<Rightarrow> jsnum \<Rightarrow> HumanVerifier" where
  "handleMouseMove v e now =
     (if \<not> isTracking v \<or> map_option gestureType (dataObject v) \<noteq> Some ''MOUSE'' then v
      else
        let v1 = v\<lparr> moveCounter := moveCounter v + Fin 1 \<rparr>
        in if \<not> jeq (jrem (moveCounter v1) (moveSampleRate v1)) (Fin 0) then v1
           else v1\<lparr> moveEvents := moveEvents v1 @ [getMouseData e now] \<rparr>)"

definition resetState :: "HumanVerifier \<Rightarrow> HumanVerifier" where
  "resetState v = v\<lparr> dataObject := None, moveEvents := [], isTracking := False \<rparr>"

section \<open>The Point Stream\<close>

text \<open>A sample \<open>{x, y, t}\<close> of the source; the fields are \<open>px\<close>, \<open>py\<close> and
  \<open>pt\<close> here.\<close>

record point =
  px :: jsnum
  py :: jsnum
  pt :: jsnum

section \<open>\<open>InputTypeDetector\<close>\<close>

text \<open>\<open>InputTypeDetector.TYPES\<close>: \<open>'mouse'\<close>, \<open>'touch'\<close>, \<open>'unknown'\<close>.\<close>

datatype InputType = MOUSE | TOUCH | UNKNOWN

record jitterPattern =
  highVariance :: jsnum
  precisionPattern :: jsnum

record dwellCharacteristics =
  largeContactArea :: jsnum
  pointContact :: jsnum

record speedProfile =
  smoothProfile :: jsnum
  sharpProfile :: jsnum
  lowPrecision :: jsnum
  highPrecision :: jsnum

text \<open>\<open>_analyzeJitterPattern\<close>. Both \<open>dts.reduce\<close> without an initial value throw
  on an empty \<open>dts\<close>; the one inside the variance is the same sum as \<open>dtMean\<close>'s.\<close>

definition analyzeJitterPattern :: "point list \<Rightarrow> jitterPattern option" where
  "analyzeJitterPattern points =
     (let dts = loop 1 (length points)
                  (\<lambda>i. Math_max (Fin 0.1) (pt (points ! i) - pt (points ! (i - 1)))) in
      case reduce1 (\<lambda>a b. a + b) dts of
        None \<Rightarrow> None
      | Some dtSum \<Rightarrow>
          let dtVariance =
                foldl (\<lambda>a b. a + Math_pow (b - dtSum / num (length dts)) 2) (Fin 0) dts
                  / num (length dts);
              dtStdDev = Math_sqrt dtVariance;
              dtMean = dtSum / num (length dts);
              dtCV = dtStdDev / dtMean
          in Some \<lparr> highVariance = Math_min (Fin 1) (dtCV / Fin 0.15),
                      precisionPattern = Math_max (Fin 0) (Fin 1 - dtCV / Fin 0.08) \<rparr>)"

text \<open>\<open>_analyzeDwellCharacteristics\<close>.\<close>

definition analyzeDwellCharacteristics :: "point list \<Rightarrow> dwellCharacteristics option" where
  "analyzeDwellCharacteristics points =
     (if length points < 5 then Some \<lparr> largeContactArea = Fin 0.5, pointContact = Fin 0.5 \<rparr>
      else
        let cx = foldl (\<lambda>a b. a + px b) (Fin 0) points / num (length points);
            cy = foldl (\<lambda>a b. a + py b) (Fin 0) points / num (length points);
            distances = map (\<lambda>p. Math_hypot (px p - cx) (py p - cy)) points
        in case reduce1 (\<lambda>a b. a + b) distances of
             None \<Rightarrow> None
           | Some distSum \<Rightarrow>
               let avgDist = distSum / num (length distances);
                   maxDist = Math_max_list distances;
                   spreadArea = (maxDist > Fin 15)
               in Some \<lparr> largeContactArea = (if spreadArea then Fin 0.8 else Fin 0.2),
                           pointContact = (if spreadArea then Fin 0.2 else Fin 0.8) \<rparr>)"

text \<open>The body of the loop that \<open>_analyzeSpeedProfile\<close>, \<open>analyzeSpeed\<close> and
  \<open>analyzeAcceleration\<close> share: the elapsed time between samples \<open>i - 1\<close> and
  \<open>i\<close> in seconds, floored to 8 ms, and the speed there in px/s.\<close>

definition dtAt :: "point list \<Rightarrow> nat \<Rightarrow> jsnum" where
  "dtAt pts i =
     (let dtMs = Math_max (Fin 8) (pt (pts ! i) - pt (pts ! (i - 1)))
      in dtMs / Fin 1000)"

definition speedAt :: "point list \<Rightarrow> nat \<Rightarrow> jsnum" where
  "speedAt pts i =
     (let dx = px (pts ! i) - px (pts ! (i - 1));
          dy = py (pts ! i) - py (pts ! (i - 1));
          dt = dtAt pts i
      in Math_sqrt (dx * dx + dy * dy) / dt)"

text \<open>\<open>_analyzeSpeedProfile\<close>.\<close>

definition analyzeSpeedProfile :: "point list \<Rightarrow> speedProfile" where
  "analyzeSpeedProfile points =
     (if length points < 3
      then \<lparr> smoothProfile = Fin 0.5, sharpProfile = Fin 0.5,
             lowPrecision = Fin 0.5, highPrecision = Fin 0.5 \<rparr>
      else
        let speeds = loop 1 (length points) (speedAt points);
            mean = sum0 speeds / num (length speeds);
            speedVar = foldl (\<lambda>a b. a + Math_pow (b - mean) 2) (Fin 0) speeds
                         / num (length speeds);
            speedStd = Math_sqrt (jor speedVar (Fin 0));
            speedCV = (if Math_abs mean > Fin (1 / 1000000) then speedStd / mean else Fin 0)
        in \<lparr> smoothProfile = Math_min (Fin 1) (speedCV / Fin 0.5),
              sharpProfile = Math_max (Fin 0) (Fin 1 - speedCV / Fin 0.3),
              lowPrecision = Math_min (Fin 1) (speedCV / Fin 0.6),
              highPrecision = Math_max (Fin 0) (Fin 1 - speedCV / Fin 0.4) \<rparr>)"

text \<open>\<open>InputTypeDetector.detect\<close>. The input source is \<open>null\<close> (\<open>None\<close>) or a
  string.\<close>

definition detect :: "point list \<Rightarrow> string option \<Rightarrow> InputType option" where
  "detect points inputSource =
     (if inputSource = Some ''touch'' then Some TOUCH
      else if inputSource = Some ''mouse'' then Some MOUSE
      else if length points < 10 then Some UNKNOWN
      else
        case analyzeJitterPattern points of
          None \<Rightarrow> None
        | Some jitterAnalysis \<Rightarrow>
            (case analyzeDwellCharacteristics points of
               None \<Rightarrow> None
             | Some dwellAnalysis \<Rightarrow>
                 let speedProfile = analyzeSpeedProfile points;
                     touchScore = highVariance jitterAnalysis * Fin 0.3
                                + largeContactArea dwellAnalysis * Fin 0.3
                                + smoothProfile speedProfile * Fin 0.2
                                + lowPrecision speedProfile * Fin 0.2;
                     mouseScore = precisionPattern jitterAnalysis * Fin 0.3
                                + pointContact dwellAnalysis * Fin 0.3
                                + sharpProfile speedProfile * Fin 0.2
                                + highPrecision speedProfile * Fin 0.2
                 in Some (if touchScore > mouseScore then TOUCH else MOUSE)))"

section \<open>\<open>AdaptivePerceptron\<close>\<close>

record AdaptivePerceptron =
  inputType :: InputType
  weights :: "(string \<times> jsnum) list"
  bias :: jsnum
  lastZ :: "jsnum option"
  lastP :: "jsnum option"

text \<open>\<open>_initializeWeights\<close>: the weights and the bias of an input type.\<close>

definition initializeWeights :: "InputType \<Rightarrow> (string \<times> jsnum) list \<times> jsnum" where
  "initializeWeights ty =
     (if ty = TOUCH then
        ([(''fitts'', Fin 1.6), (''temporal'', Fin 1.3), (''decision'', Fin 1.7),
          (''jitter'', Fin 0.35), (''dwell'', Fin 0.75), (''speed'', Fin 0.35),
          (''accel'', Fin 0.4), (''curvature'', Fin 0.25), (''entropy'', Fin 0.2),
          (''pauses'', Fin 1.0)],
         Fin (- 2.6))
      else
        ([(''fitts'', Fin 2.2), (''temporal'', Fin 2.1), (''decision'', Fin 2.3),
          (''jitter'', Fin 0.9), (''dwell'', Fin 1.4), (''speed'', Fin 0.5),
          (''accel'', Fin 0.6), (''curvature'', Fin 0.4), (''entropy'', Fin 0.3),
          (''pauses'', Fin 1.7)],
         Fin (- 3.2)))"

text \<open>The constructor.\<close>

definition new_AdaptivePerceptron :: "InputType \<Rightarrow> AdaptivePerceptron" where
  "new_AdaptivePerceptron ty =
     \<lparr> inputType = ty, weights = fst (initializeWeights ty),
       bias = snd (initializeWeights ty), lastZ = None, lastP = None \<rparr>"

definition sigmoid :: "jsnum \<Rightarrow> jsnum" where
  "sigmoid z = Fin 1 / (Fin 1 + Math_exp (- Math_max (Fin (- 100)) (Math_min (Fin 100) z)))"

text \<open>
  The weights are an object literal, so a key that it does not have itself is looked up
  in \<open>Object.prototype\<close>. These are the property names of \<open>Object.prototype\<close>;
  each of them reads as a function there (\<open>__proto__\<close> as the prototype object
  itself), never as \<open>undefined\<close>.
\<close>

definition objectPrototypeKeys :: "string list" where
  "objectPrototypeKeys =
     [''constructor'', ''hasOwnProperty'', ''isPrototypeOf'', ''propertyIsEnumerable'',
      ''toLocaleString'', ''toString'', ''valueOf'', ''__proto__'', ''__defineGetter__'',
      ''__defineSetter__'', ''__lookupGetter__'', ''__lookupSetter__'']"

text \<open>
  \<open>predict\<close>. The inputs are an object: its keys in insertion order, each with its
  value. \<open>this.weights[key] || 0\<close> is the weight of a key that has one (\<open>0\<close> when
  that weight is \<open>0\<close> or \<open>NaN\<close>). For a key with no weight it is \<open>0\<close>, unless
  the key is inherited from \<open>Object.prototype\<close>: then it is the inherited function,
  which is truthy, and the product converts it to \<open>NaN\<close>. \<open>inputs[key] || 0\<close> is
  \<open>0\<close> for a value that is \<open>NaN\<close>. The perceptron comes back with \<open>lastZ\<close>
  and \<open>lastP\<close> written.
\<close>

definition predict ::
  "AdaptivePerceptron \<Rightarrow> (string \<times> jsnum) list \<Rightarrow> AdaptivePerceptron \<times> jsnum" where
  "predict nn inputs =
     (let z = foldl
                (\<lambda>z key.
                   let w = (case map_of (weights nn) key of
                              None \<Rightarrow> (if key \<in> set objectPrototypeKeys then NaN else Fin 0)
                            | Some v \<Rightarrow> jor v (Fin 0))
                   in z + (case map_of inputs key of
                             None \<Rightarrow> Fin 0 | Some v \<Rightarrow> jor v (Fin 0)) * w)
                (bias nn) (map fst inputs);
          p = sigmoid z
      in (nn\<lparr> lastZ := Some z, lastP := Some p \<rparr>, p))"

section \<open>The feature extractors of \<open>Vhum\<close>\<close>

text \<open>
  Each extractor returns an object; a property that only some of its \<open>return\<close>
  statements write is an \<open>option\<close> here (\<open>None\<close>: the property is missing, and
  reading it gives \<open>undefined\<close>). Fields of different records share names, as in the
  source, and are told apart by the record's name: \<open>speedStats.score\<close>.
  \<open>this.inputType\<close>, which \<open>finalize\<close> sets before it calls the extractors, is
  their first argument \<open>ty\<close> where they read it.
\<close>

text \<open>The variance loop \<open>xs.reduce((a, b) => a + Math.pow(b - m, 2), 0)\<close>.\<close>

definition sumSq :: "jsnum \<Rightarrow> jsnum list \<Rightarrow> jsnum" where
  "sumSq m xs = foldl (\<lambda>a b. a + Math_pow (b - m) 2) (Fin 0) xs"

record jitterStats =
  jerk :: jsnum
  isWhiteNoise :: bool
  tremor :: jsnum
  spectralPower :: "jsnum option"
  cv :: jsnum
  syncRatio :: jsnum

definition analyzeJitter :: "InputType \<Rightarrow> point list \<Rightarrow> jitterStats option" where
  "analyzeJitter ty pts =
     (if length pts < 5
      then Some \<lparr> jerk = Fin 0, isWhiteNoise = False, tremor = Fin 0,
                  spectralPower = Some (Fin 0), cv = Fin 0.2, syncRatio = Fin 0 \<rparr>
      else
        let dts = loop 1 (length pts)
                    (\<lambda>i. Math_max (Fin 8) (pt (pts ! i) - pt (pts ! (i - 1)))) in
        case reduce1 (\<lambda>a b. a + b) dts of
          None \<Rightarrow> None
        | Some dtSum \<Rightarrow>
            let meanDt = dtSum / num (length dts);
                varianceDt = sumSq meanDt dts / num (length dts);
                stdDevDt = Math_sqrt varianceDt;
                velocities = loop 1 (length pts)
                  (\<lambda>i. let dx = px (pts ! i) - px (pts ! (i - 1));
                            dy = py (pts ! i) - py (pts ! (i - 1));
                            dtSec = Math_max (Fin 0.008) (dts ! (i - 1) / Fin 1000)
                        in Math_sqrt (dx * dx + dy * dy) / dtSec);
                accelerations = loop 1 (length velocities)
                  (\<lambda>i. Math_abs (velocities ! i - velocities ! (i - 1))
                          / Math_max (Fin 0.008) (dts ! i / Fin 1000));
                meanVel = Math_max (Fin 0.1)
                            (sum0 velocities / Math_max (Fin 1) (num (length velocities)));
                varVel = jor (sumSq meanVel velocities
                                / Math_max (Fin 1) (num (length velocities))) (Fin 0);
                stdDevVel = Math_sqrt (Math_max (Fin 0) varVel);
                cv = Math_max (Fin 0) (stdDevVel / Math_max (Fin 0.001) meanVel);
                tremorSum = foldl (\<lambda>a b. a + b) (Fin 0)
                              (loop 2 (length accelerations)
                                 (\<lambda>i. Math_abs (accelerations ! i - accelerations ! (i - 1))));
                tremor = tremorSum / Math_max (Fin 1) (Fin (real (length accelerations) - 2));
                perfectMultiples = length (filter
                  (\<lambda>dt. Math_abs (dt - Fin 16.67) < Fin 1 \<or> Math_abs (dt - Fin 33.33) < Fin 1
                        \<or> Math_abs (dt - Fin 50) < Fin 1) dts);
                syncRatio = (if length dts > 0 then num perfectMultiples / num (length dts)
                             else Fin 0);
                jitterThreshold = (if ty = TOUCH then Fin 0.12 else Fin 0.08);
                isSuspiciouslySmooth =
                  (cv < jitterThreshold \<or> (varVel < Fin 0.01 \<and> stdDevDt < Fin 1)
                   \<or> syncRatio > Fin 0.75)
            in Some \<lparr> jerk = Math_min (Fin 1) (Math_max (Fin 0) (tremor / Fin 50)),
                        isWhiteNoise = isSuspiciouslySmooth, tremor = Math_min (Fin 1) cv,
                        spectralPower = None, cv = cv, syncRatio = syncRatio \<rparr>)"

record speedStats =
  avg :: jsnum
  max' :: jsnum
  min' :: "jsnum option"
  score :: jsnum
  distribution :: string
  mode :: jsnum
  skewness :: jsnum

definition analyzeSpeed :: "point list \<Rightarrow> speedStats" where
  "analyzeSpeed pts =
     (if length pts < 3
      then \<lparr> avg = Fin 0, max' = Fin 0, min' = None, score = Fin 0,
             distribution = ''uniform'', mode = Fin 0, skewness = Fin 0 \<rparr>
      else
        let speeds = loop 1 (length pts) (speedAt pts);
            avg = sum0 speeds / num (length speeds);
            mx = Math_max_list speeds;
            mn = Math_min_list speeds;
            variance = sumSq avg speeds / num (length speeds);
            stdDev = Math_sqrt variance;
            skewness = (if stdDev > Fin 0
                        then foldl (\<lambda>a b. a + Math_pow ((b - avg) / stdDev) 3) (Fin 0) speeds
                               / num (length speeds)
                        else Fin 0);
            humanLikeDistribution = (skewness > Fin 0.3 \<and> avg > Fin 50
                                     \<and> stdDev / avg > Fin 0.2 \<and> stdDev / avg < Fin 2.0);
            accelerationPattern = (mx / Math_max avg (Fin 1) > Fin 1.5
                                   \<and> mx / Math_max avg (Fin 1) < Fin 4);
            score = (if humanLikeDistribution \<and> accelerationPattern
                     then Math_min (Fin 1)
                            (Fin 0.7 + Fin 0.3 * Math_max (Fin 0)
                               (Math_min (Fin 1) ((skewness - Fin 0.3) / Fin 1.0)))
                     else Math_max (Fin 0) (Math_min (Fin 1) (avg / Fin 600)))
        in \<lparr> avg = avg, max' = mx, min' = Some mn, score = score,
              distribution = (if humanLikeDistribution then ''lognormal'' else ''uniform''),
              mode = avg, skewness = skewness \<rparr>)"

record accelStats =
  avg :: jsnum
  var :: jsnum
  score :: jsnum
  maxAccel :: jsnum
  naturalAccel :: bool

definition analyzeAcceleration :: "InputType \<Rightarrow> point list \<Rightarrow> accelStats" where
  "analyzeAcceleration ty pts =
     (if length pts < 4
      then \<lparr> avg = Fin 0, var = Fin 0, score = Fin 0, maxAccel = Fin 0, naturalAccel = False \<rparr>
      else
        let dts = loop 1 (length pts) (dtAt pts);
            speeds = loop 1 (length pts) (speedAt pts);
            acc = loop 1 (length speeds)
                    (\<lambda>i. let dv = speeds ! i - speeds ! (i - 1);
                              dt = (if i < length dts then jor (dts ! i) (Fin 0.016)
                                    else Fin 0.016)
                          in dv / dt);
            mean = foldl (\<lambda>a b. a + Math_abs b) (Fin 0) acc
                     / Math_max (Fin 1) (num (length acc));
            variance = (if length acc \<noteq> 0 then sumSq mean acc / num (length acc) else Fin 0);
            stdDev = Math_sqrt variance;
            maxAccel = (if length acc \<noteq> 0 then Math_max_list (map Math_abs acc) else Fin 0);
            maxAccelThreshold = (if ty = TOUCH then Fin 6000 else Fin 5000);
            naturalAccel = (maxAccel < maxAccelThreshold \<and> maxAccel > Fin 50);
            smoothAccel = (stdDev / (mean + Fin 0.1) < Fin 3.0);
            score = (if naturalAccel \<and> smoothAccel
                     then Math_min (Fin 1)
                            (Fin 0.8 + Fin 0.2 * Math_max (Fin 0)
                               (Math_min (Fin 1)
                                  ((stdDev / (mean + Fin 0.1) - Fin 0.5) / Fin 2.0)))
                     else Math_max (Fin 0) (Math_min (Fin 1) (mean / Fin 2000)))
        in \<lparr> avg = mean, var = variance, score = score, maxAccel = maxAccel,
              naturalAccel = (naturalAccel \<and> smoothAccel) \<rparr>)"

record curvatureStats =
  score :: jsnum
  curvature :: jsnum
  straightness :: jsnum
  angleVariance :: jsnum
  naturalCurvature :: "bool option"

definition analyzeCurvature :: "point list \<Rightarrow> curvatureStats" where
  "analyzeCurvature pts =
     (if length pts < 4
      then \<lparr> score = Fin 0, curvature = Fin 0, straightness = Fin 0, angleVariance = Fin 0,
             naturalCurvature = None \<rparr>
      else
        let angles = loop_opt 2 (length pts)
              (\<lambda>i. let v1x = px (pts ! (i - 1)) - px (pts ! (i - 2));
                        v1y = py (pts ! (i - 1)) - py (pts ! (i - 2));
                        v2x = px (pts ! i) - px (pts ! (i - 1));
                        v2y = py (pts ! i) - py (pts ! (i - 1));
                        dot = v1x * v2x + v1y * v2y;
                        mag1 = Math_hypot v1x v1y;
                        mag2 = Math_hypot v2x v2y
                    in if jeq (mag1 * mag2) (Fin 0) then None
                       else Some (Math_acos (Math_max (Fin (- 1))
                                    (Math_min (Fin 1) (dot / (mag1 * mag2))))));
            angleSum = sum0 angles;
            count = length angles;
            avgAngle = (if count \<noteq> 0 then angleSum / num count else Fin 0);
            angleVariance = (if count \<noteq> 0 then sumSq avgAngle angles / num count else Fin 0);
            angleStdDev = Math_sqrt angleVariance;
            naturalCurvature = (avgAngle > Fin 0.2 \<and> avgAngle < Fin 1.2);
            smoothCurvature = (angleStdDev < avgAngle + Fin 0.5);
            pathLength = sum0 (loop 1 (length pts)
              (\<lambda>i. Math_hypot (px (pts ! i) - px (pts ! (i - 1)))
                                (py (pts ! i) - py (pts ! (i - 1)))));
            euclidean = Math_hypot (px (pts ! (length pts - 1)) - px (pts ! 0))
                                   (py (pts ! (length pts - 1)) - py (pts ! 0));
            straightness = (if euclidean > Fin 0 then euclidean / pathLength else Fin 0);
            score = (if naturalCurvature \<and> smoothCurvature \<and> straightness > Fin 0.7
                     then Math_min (Fin 1) (Fin 0.7 + Fin 0.3 * Math_min (Fin 1) straightness)
                     else Math_max (Fin 0) (Math_min (Fin 1) (straightness * Fin 0.5)))
        in \<lparr> score = score, curvature = avgAngle, straightness = straightness,
              angleVariance = angleVariance,
              naturalCurvature = Some (naturalCurvature \<and> smoothCurvature) \<rparr>)"

text \<open>
  The object \<open>freq\<close> of \<open>analyzeEntropy\<close>, keyed by direction: an association list in
  insertion order. \<open>freq[d] = (freq[d] || 0) + 1\<close> is \<open>bump\<close>. \<open>Object.values\<close>
  and \<open>Object.keys\<close> list the keys that are array indices first, in ascending order,
  then the others (\<open>-1\<close>, ..., \<open>NaN\<close>) in insertion order: \<open>ownEntries\<close>.
\<close>

definition bump :: "(jsnum \<times> jsnum) list \<Rightarrow> jsnum \<Rightarrow> (jsnum \<times> jsnum) list" where
  "bump freq d =
     (case map_of freq d of
        None \<Rightarrow> freq @ [(d, Fin 0 + Fin 1)]
      | Some c \<Rightarrow> map (\<lambda>(k, v). if k = d then (k, jor c (Fin 0) + Fin 1) else (k, v)) freq)"

definition isArrayIndex :: "jsnum \<Rightarrow> bool" where
  "isArrayIndex k =
     (case k of Fin a \<Rightarrow> 0 \<le> a \<and> a = of_int \<lfloor>a\<rfloor> \<and> a < 4294967295 | _ \<Rightarrow> False)"

definition ownEntries :: "(jsnum \<times> jsnum) list \<Rightarrow> (jsnum \<times> jsnum) list" where
  "ownEntries freq =
     sort_key (\<lambda>(k, c). case k of Fin a \<Rightarrow> a | _ \<Rightarrow> 0) (filter (\<lambda>(k, c). isArrayIndex k) freq)
       @ filter (\<lambda>(k, c). \<not> isArrayIndex k) freq"

record entropyStats =
  score :: jsnum
  entropy :: jsnum
  directionBias :: jsnum
  predictability :: jsnum
  normalizedEntropy :: "jsnum option"
  dominance :: "jsnum option"

definition analyzeEntropy :: "point list \<Rightarrow> entropyStats" where
  "analyzeEntropy pts =
     (if length pts < 4
      then \<lparr> score = Fin 0, entropy = Fin 0, directionBias = Fin 0, predictability = Fin 0,
             normalizedEntropy = None, dominance = None \<rparr>
      else
        let directions = loop_opt 1 (length pts)
              (\<lambda>i. let dx = px (pts ! i) - px (pts ! (i - 1));
                        dy = py (pts ! i) - py (pts ! (i - 1))
                    in if Math_hypot dx dy < Fin 0.5 then None
                       else Some (jrem (Math_round (Math_atan2 dy dx / (Fin pi / Fin 4)))
                                    (Fin 8)))
        in if length directions = 0
           then \<lparr> score = Fin 0, entropy = Fin 0, directionBias = Fin 0,
                  predictability = Fin 0, normalizedEntropy = Some (Fin 0),
                  dominance = Some (Fin 0) \<rparr>
           else
             let freq = foldl bump [] directions;
                 total = num (length directions);
                 entropy = foldl (\<lambda>e c. let p = c / total
                                         in if p > Fin 0 then e - p * Math_log2 p else e)
                             (Fin 0) (map snd (ownEntries freq));
                 maxEntropy = Math_log2 (jor (num (length (ownEntries freq))) (Fin 1));
                 normalizedEntropy = (if maxEntropy > Fin 0 then entropy / maxEntropy
                                      else Fin 0);
                 axisAlignedDirs = length (filter (\<lambda>d. jeq (jrem d (Fin 2)) (Fin 0)) directions);
                 directionBias = num axisAlignedDirs / total;
                 maxFreq = Math_max_list (map snd (ownEntries freq));
                 dominance = maxFreq / total;
                 predictability = (if dominance > Fin 0.6 then Fin 1 - normalizedEntropy
                                   else normalizedEntropy);
                 humanLikeEntropy = (normalizedEntropy > Fin 0.4 \<and> normalizedEntropy < Fin 0.95);
                 score = (if humanLikeEntropy then normalizedEntropy
                          else Math_max (Fin 0)
                                 (Math_min (Fin 1)
                                    (Fin 1 - Math_abs (normalizedEntropy - Fin 0.65) / Fin 0.5)))
             in \<lparr> score = score, entropy = entropy, directionBias = directionBias,
                   predictability = predictability,
                   normalizedEntropy = Some normalizedEntropy,
                   dominance = Some dominance \<rparr>)"

record pauseStats =
  count :: jsnum
  score :: jsnum
  meanPause :: jsnum
  pausePattern :: string
  maxPause :: "jsnum option"
  pauseStdDev :: "jsnum option"
  pauseCV :: "jsnum option"
  dispersao :: "jsnum option"

definition countPauses :: "point list \<Rightarrow> pauseStats" where
  "countPauses pts =
     (if length pts < 3
      then \<lparr> count = Fin 0, score = Fin 0, meanPause = Fin 0, pausePattern = ''none'',
             maxPause = None, pauseStdDev = None, pauseCV = None, dispersao = None \<rparr>
      else
        let pauseThreshold = Fin 80;
            pauses = loop_opt 1 (length pts)
              (\<lambda>i. let dt = pt (pts ! i) - pt (pts ! (i - 1))
                    in if dt > pauseThreshold then Some dt else None);
            pauseCount = length pauses
        in if pauseCount = 0
           then \<lparr> count = Fin 0, score = Fin 0.1, meanPause = Fin 0,
                  pausePattern = ''continuous'', maxPause = Some (Fin 0), pauseStdDev = None,
                  pauseCV = None, dispersao = None \<rparr>
           else
             let meanPause = sum0 pauses / num (length pauses);
                 pauseVariance = sumSq meanPause pauses / num (length pauses);
                 pauseStdDev = Math_sqrt pauseVariance;
                 pauseCV = (if meanPause > Fin 0 then pauseStdDev / meanPause else Fin 0);
                 dispersao = pauseVariance / (meanPause + Fin 0.1);
                 poissonLike = (dispersao > Fin 0.8 \<and> dispersao < Fin 3.0);
                 naturalPauseTiming = (meanPause > Fin 50 \<and> meanPause < Fin 500);
                 score = (if poissonLike \<and> naturalPauseTiming \<and> pauseCV > Fin 0.2
                          then Math_min (Fin 1)
                                 (Fin 0.6 + Fin 0.4 * Math_max (Fin 0)
                                    (Math_min (Fin 1) (pauseCV / Fin 1.0)))
                          else Math_max (Fin 0)
                                 (Math_min (Fin 1)
                                    (Math_min (num pauseCount / Fin 5)
                                       (Fin 1 - dispersao / Fin 5))))
             in \<lparr> count = num pauseCount, score = Math_max (Fin 0) (Math_min (Fin 1) score),
                   meanPause = meanPause,
                   pausePattern = (if poissonLike then ''natural_poisson''
                                   else if dispersao > Fin 3 then ''irregular'' else ''regular''),
                   maxPause = Some (Math_max_list pauses), pauseStdDev = Some pauseStdDev,
                   pauseCV = Some pauseCV, dispersao = Some dispersao \<rparr>)"

record temporalStats =
  score :: jsnum
  isSuspicious :: bool
  perfectSync :: jsnum
  variance :: jsnum
  meanDt :: "jsnum option"
  meanDtHz :: "jsnum option"

definition refreshRates :: "jsnum list" where
  "refreshRates = [Fin 2.78, Fin 4.17, Fin 5, Fin 8.33, Fin 10, Fin 16.67, Fin 20, Fin 33.33,
                   Fin 50]"

definition checkTemporalPrecision :: "point list \<Rightarrow> temporalStats option" where
  "checkTemporalPrecision pts =
     (if length pts < 5
      then Some \<lparr> score = Fin 0, isSuspicious = False, perfectSync = Fin 0, variance = Fin 0,
                  meanDt = None, meanDtHz = None \<rparr>
      else
        let dts = loop 1 (length pts) (\<lambda>i. pt (pts ! i) - pt (pts ! (i - 1)));
            tolerance = Fin 0.5;
            syncCount = foldl
              (\<lambda>n dt. foldl
                 (\<lambda>n rate. if Math_abs (dt - rate) < tolerance
                                \<or> Math_abs (dt - rate * Fin 2) < tolerance
                             then n + 1 else n)
                 n refreshRates)
              (0::nat) dts;
            syncRatio = (if length dts > 0 then num syncCount / num (length dts) else Fin 0)
        in case reduce1 (\<lambda>a b. a + b) dts of
             None \<Rightarrow> None
           | Some dtSum \<Rightarrow>
               let meanDt = dtSum / num (length dts);
                   variance = sumSq meanDt dts / num (length dts);
                   cv = Math_sqrt variance / meanDt;
                   humanLikeVariance = (cv > Fin 0.12);
                   suspiciousSync = (syncRatio > Fin 0.65)
               in Some \<lparr> score = (if suspiciousSync then Fin 0.9
                                    else if humanLikeVariance then Fin 0.2 else Fin 0.5),
                           isSuspicious = (suspiciousSync \<and> \<not> humanLikeVariance),
                           perfectSync = syncRatio, variance = cv, meanDt = Some meanDt,
                           meanDtHz = Some (Fin 1000 / meanDt) \<rparr>)"

section \<open>\<open>Vhum\<close>\<close>

text \<open>
  The options of the engine: the two thresholds. The selectors \<open>container\<close> and
  \<open>checkbox\<close> only find the two DOM elements; whether they were found is an argument
  of the constructor.
\<close>

record options =
  thresholdMouse :: jsnum
  thresholdTouch :: jsnum

text \<open>The object given to the constructor: a threshold it does not have is \<open>None\<close>.\<close>

record givenOptions =
  givenThresholdMouse :: "jsnum option"
  givenThresholdTouch :: "jsnum option"

text \<open>
  \<open>this.nn\<close> is a reference to \<open>this.nnMouse\<close> or to \<open>this.nnTouch\<close>: what
  \<open>predict\<close> writes through it is written to that perceptron.
\<close>

datatype nnRef = NnMouse | NnTouch

text \<open>A subscriber is known by a number; what it does when called is outside the engine.\<close>

type_synonym callback = nat

record Vhum =
  options :: options
  points :: "point list"
  isTracking :: bool
  t_entry :: jsnum
  t_down :: jsnum
  entry_pos :: "jsnum \<times> jsnum"
  lastInputSource :: "string option"
  inputType :: InputType
  nnMouse :: AdaptivePerceptron
  nnTouch :: AdaptivePerceptron
  nn :: nnRef
  listeners :: "string \<rightharpoonup> callback list"

text \<open>
  The constructor, without \<open>init\<close> (which only registers the DOM listeners,
  \<open>dispatch\<close> below). With an element missing it logs an error and returns before it
  sets any state: \<open>None\<close>.
\<close>

definition new_Vhum :: "givenOptions \<Rightarrow> bool \<Rightarrow> bool \<Rightarrow> Vhum option" where
  "new_Vhum given areaFound checkFound =
     (if \<not> (areaFound \<and> checkFound) then None
      else Some
        \<lparr> options =
            \<lparr> thresholdMouse = (case givenThresholdMouse given of
                                    Some v \<Rightarrow> v | None \<Rightarrow> Fin 0.68),
              thresholdTouch = (case givenThresholdTouch given of
                                    Some v \<Rightarrow> v | None \<Rightarrow> Fin 0.62) \<rparr>,
          points = [],
          isTracking = False,
          t_entry = Fin 0,
          t_down = Fin 0,
          entry_pos = (Fin 0, Fin 0),
          lastInputSource = None,
          inputType = UNKNOWN,
          nnMouse = new_AdaptivePerceptron MOUSE,
          nnTouch = new_AdaptivePerceptron TOUCH,
          nn = NnMouse,
          listeners = Map.empty \<rparr>)"

text \<open>
  \<open>on\<close>, \<open>off\<close> and \<open>emit\<close>, for an event name that is not a property name of
  \<open>Object.prototype\<close> (for one that is, \<open>this.listeners[event]\<close> is a function
  and the source throws). The engine itself emits \<open>'result'\<close> only.
\<close>

definition on :: "Vhum \<Rightarrow> string \<Rightarrow> callback \<Rightarrow> Vhum" where
  "on s event cb =
     s\<lparr> listeners := (listeners s)
          (event \<mapsto> (case listeners s event of None \<Rightarrow> [] | Some cbs \<Rightarrow> cbs) @ [cb]) \<rparr>"

definition off :: "Vhum \<Rightarrow> string \<Rightarrow> callback \<Rightarrow> Vhum" where
  "off s event cb =
     (case listeners s event of
        None \<Rightarrow> s
      | Some cbs \<Rightarrow> s\<lparr> listeners := (listeners s)(event \<mapsto> filter (\<lambda>c. c \<noteq> cb) cbs) \<rparr>)"

text \<open>\<open>emit\<close>: the calls it makes, in order, each a subscriber with the data.\<close>

definition emit :: "Vhum \<Rightarrow> string \<Rightarrow> 'a \<Rightarrow> (callback \<times> 'a) list" where
  "emit s event data =
     (case listeners s event of None \<Rightarrow> [] | Some cbs \<Rightarrow> map (\<lambda>cb. (cb, data)) cbs)"

text \<open>The part of a DOM event (or of a touch) that the engine reads.\<close>

record pointer =
  clientX :: jsnum
  clientY :: jsnum

text \<open>The rectangle of \<open>this.check.getBoundingClientRect()\<close>.\<close>

record DOMRect =
  left :: jsnum
  top' :: jsnum
  width :: jsnum
  height :: jsnum

text \<open>A handler's argument \<open>now\<close> is what \<open>performance.now()\<close> returns to it.\<close>

definition handleEntry :: "Vhum \<Rightarrow> pointer \<Rightarrow> jsnum \<Rightarrow> Vhum" where
  "handleEntry s e now = s\<lparr> t_entry := now, entry_pos := (clientX e, clientY e) \<rparr>"

definition addPoint :: "Vhum \<Rightarrow> pointer \<Rightarrow> jsnum \<Rightarrow> Vhum" where
  "addPoint s e now = s\<lparr> points := points s @ [\<lparr> px = clientX e, py = clientY e, pt = now \<rparr>] \<rparr>"

text \<open>\<open>handleStart\<close> reads the clock twice: for \<open>t_down\<close>, then in \<open>addPoint\<close>.\<close>

definition handleStart :: "Vhum \<Rightarrow> pointer \<Rightarrow> jsnum \<Rightarrow> jsnum \<Rightarrow> Vhum" where
  "handleStart s e now now' =
     addPoint (s\<lparr> t_down := now, isTracking := True, points := [] \<rparr>) e now'"

definition handleMove :: "Vhum \<Rightarrow> pointer \<Rightarrow> jsnum \<Rightarrow> Vhum" where
  "handleMove s e now = (if \<not> isTracking s then s else addPoint s e now)"

subsection \<open>\<open>finalize\<close>\<close>

text \<open>
  The local constants of \<open>finalize\<close> up to the feature vector \<open>inputs\<close> (the lines
  before \<open>this.nn.predict\<close>), under their names in the source, are computed by
  \<open>analyse\<close>, which changes no state.
\<close>

record analysis =
  a_inputType :: InputType
  a_dwellTime :: jsnum
  a_decisionTime :: jsnum
  a_movementTime :: jsnum
  a_D :: jsnum
  a_W :: jsnum
  a_ID :: jsnum
  a_timeExpectedFitts :: jsnum
  a_fittsViolation :: bool
  a_jitter :: jitterStats
  a_speedStats :: speedStats
  a_accelStats :: accelStats
  a_curvature :: curvatureStats
  a_entropy :: entropyStats
  a_pauses :: pauseStats
  a_temporalAnalysis :: temporalStats
  a_temporalViolation :: bool
  a_inputs :: "(string \<times> jsnum) list"

text \<open>\<open>b ? 1 : 0\<close>.\<close>

definition flag :: "bool \<Rightarrow> jsnum" where
  "flag b = (if b then Fin 1 else Fin 0)"

definition analyse :: "Vhum \<Rightarrow> jsnum \<Rightarrow> DOMRect \<Rightarrow> analysis option" where
  "analyse s now targetRect =
     (case detect (points s) (lastInputSource s) of
        None \<Rightarrow> None
      | Some ty \<Rightarrow>
          let t_up = now;
              dwellTime = t_up - t_down s;
              decisionTime = Math_max (t_down s - t_entry s) (Fin 100);
              movementTime = t_up - t_entry s;
              entryPoint = entry_pos s;
              targetCenterX = left targetRect + width targetRect / Fin 2;
              targetCenterY = top' targetRect + height targetRect / Fin 2;
              D = Math_hypot (targetCenterX - fst entryPoint) (targetCenterY - snd entryPoint);
              W = Math_min (width targetRect) (height targetRect);
              ID = Math_max (Fin 0) (Math_log2 (Fin 2 * D / (W + Fin 1) + Fin 1));
              throughputExpected = (if ty = TOUCH then Fin 2.5 else Fin 4.0);
              timeExpectedFitts = ID / throughputExpected * Fin 1000;
              fittsViolation = (if ty = TOUCH then movementTime < timeExpectedFitts * Fin 0.35
                                else movementTime < timeExpectedFitts * Fin 0.6)
          in case analyzeJitter ty (points s) of
               None \<Rightarrow> None
             | Some jitter \<Rightarrow>
                 let speedStats = analyzeSpeed (points s);
                     accelStats = analyzeAcceleration ty (points s);
                     curvature = analyzeCurvature (points s);
                     entropy = analyzeEntropy (points s);
                     pauses = countPauses (points s)
                 in case checkTemporalPrecision (points s) of
                      None \<Rightarrow> None
                    | Some temporalAnalysis \<Rightarrow>
                        let temporalViolation =
                              (if ty = TOUCH
                               then isSuspicious temporalAnalysis
                                    \<and> perfectSync temporalAnalysis > Fin 0.85
                               else isSuspicious temporalAnalysis);
                            inputs =
                              [(''fitts'', flag fittsViolation),
                               (''temporal'', flag temporalViolation),
                               (''decision'',
                                  flag (decisionTime < (if ty = TOUCH then Fin 220 else Fin 150))),
                               (''jitter'', flag (isWhiteNoise jitter)),
                               (''dwell'',
                                  flag (dwellTime < (if ty = TOUCH then Fin 100 else Fin 40)
                                        \<or> dwellTime > (if ty = TOUCH then Fin 1500 else Fin 1000))),
                               (''speed'', Fin 1 - speedStats.score speedStats),
                               (''accel'', Fin 1 - accelStats.score accelStats),
                               (''curvature'', Fin 1 - curvatureStats.score curvature),
                               (''entropy'',
                                  Math_abs (ToNumber (normalizedEntropy entropy) - Fin 0.6)),
                               (''pauses'', Fin 1 - pauseStats.score pauses)]
                        in Some
                             \<lparr> a_inputType = ty, a_dwellTime = dwellTime,
                               a_decisionTime = decisionTime, a_movementTime = movementTime,
                               a_D = D, a_W = W, a_ID = ID,
                               a_timeExpectedFitts = timeExpectedFitts,
                               a_fittsViolation = fittsViolation, a_jitter = jitter,
                               a_speedStats = speedStats, a_accelStats = accelStats,
                               a_curvature = curvature, a_entropy = entropy,
                               a_pauses = pauses, a_temporalAnalysis = temporalAnalysis,
                               a_temporalViolation = temporalViolation,
                               a_inputs = inputs \<rparr>)"

record analysisDetails =
  dwell :: jsnum
  reaction :: jsnum
  fitts :: jsnum
  temporal :: jsnum
  jitter :: jsnum
  speed :: jsnum
  accel :: jsnum
  curvature :: jsnum
  entropy :: "jsnum option"
  pauses :: jsnum

text \<open>The verdict is \<open>0\<close> for a bot and \<open>1\<close> for a human.\<close>

record Result =
  probability :: jsnum
  verdict :: nat
  inputType :: InputType
  thresholdUsed :: jsnum
  analysisDetails :: analysisDetails

text \<open>The perceptron that \<open>this.nn\<close> refers to, and a write through the reference.\<close>

definition the_nn :: "Vhum \<Rightarrow> AdaptivePerceptron" where
  "the_nn s = (case nn s of NnMouse \<Rightarrow> nnMouse s | NnTouch \<Rightarrow> nnTouch s)"

definition set_nn :: "Vhum \<Rightarrow> AdaptivePerceptron \<Rightarrow> Vhum" where
  "set_nn s p = (case nn s of NnMouse \<Rightarrow> s\<lparr> nnMouse := p \<rparr> | NnTouch \<Rightarrow> s\<lparr> nnTouch := p \<rparr>)"

text \<open>
  \<open>finalize\<close> returns the engine as it leaves it, the result, and the calls to the
  subscribers of \<open>'result'\<close>.
\<close>

definition finalize ::
  "Vhum \<Rightarrow> jsnum \<Rightarrow> DOMRect \<Rightarrow> (Vhum \<times> Result \<times> (callback \<times> Result) list) option" where
  "finalize s now targetRect =
     (case analyse s now targetRect of
        None \<Rightarrow> None
      | Some a \<Rightarrow>
          let ty = a_inputType a;
              s1 = s\<lparr> Vhum.inputType := ty, nn := (if ty = TOUCH then NnTouch else NnMouse),
                      t_entry := Fin 0 \<rparr>;
              (p, probability) = predict (the_nn s1) (a_inputs a);
              s2 = set_nn s1 p;
              threshold = (if ty = TOUCH then thresholdTouch (options s2)
                           else thresholdMouse (options s2));
              verdict = (if probability > threshold then 0 else 1);
              result =
                \<lparr> probability = Math_round (probability * Fin 10000) / Fin 10000,
                  verdict = verdict,
                  inputType = ty,
                  thresholdUsed = threshold,
                  analysisDetails =
                    \<lparr> dwell = a_dwellTime a,
                      reaction = a_decisionTime a,
                      fitts = a_ID a,
                      temporal = perfectSync (a_temporalAnalysis a),
                      jitter = cv (a_jitter a),
                      speed = speedStats.score (a_speedStats a),
                      accel = accelStats.score (a_accelStats a),
                      curvature = curvatureStats.score (a_curvature a),
                      entropy = normalizedEntropy (a_entropy a),
                      pauses = pauseStats.score (a_pauses a) \<rparr> \<rparr>
          in Some (s2, result, emit s2 ''result'' result))"

definition handleEnd ::
  "Vhum \<Rightarrow> jsnum \<Rightarrow> DOMRect \<Rightarrow> (Vhum \<times> (callback \<times> Result) list) option" where
  "handleEnd s now targetRect =
     (if \<not> isTracking s then Some (s, [])
      else case finalize (s\<lparr> isTracking := False \<rparr>) now targetRect of
             None \<Rightarrow> None
           | Some (s', result, calls) \<Rightarrow> Some (s', calls))"

subsection \<open>The DOM listeners of \<open>init\<close>\<close>

text \<open>
  An event as a listener registered by \<open>init\<close> receives it: with the pointer data the
  listener passes on (\<open>e\<close> itself, or \<open>e.touches[0]\<close>) and, for pointer events, the
  \<open>pointerType\<close>.
\<close>

datatype domEvent =
    MouseEnter pointer
  | TouchStart pointer
  | PointerDown string pointer
  | MouseDown pointer
  | MouseMove pointer
  | TouchMove pointer
  | PointerMove string pointer
  | MouseUp
  | TouchEnd
  | PointerUp
  | TouchCancel

text \<open>\<open>if (!this.lastInputSource) this.lastInputSource = src\<close>.\<close>

definition defaultSource :: "Vhum \<Rightarrow> string \<Rightarrow> Vhum" where
  "defaultSource s src =
     (if lastInputSource s = None \<or> lastInputSource s = Some ''''
      then s\<lparr> lastInputSource := Some src \<rparr> else s)"

text \<open>
  One event through its listener. \<open>clock k\<close> is the \<open>k\<close>-th reading of
  \<open>performance.now()\<close> while the listener runs, \<open>targetRect\<close> the rectangle of the
  checkbox then. The result is the engine afterwards and the calls to the subscribers.
\<close>

fun dispatch ::
  "Vhum \<Rightarrow> domEvent \<Rightarrow> (nat \<Rightarrow> jsnum) \<Rightarrow> DOMRect \<Rightarrow> (Vhum \<times> (callback \<times> Result) list) option"
where
  "dispatch s (MouseEnter e) clock targetRect =
     Some (handleEntry (s\<lparr> lastInputSource := Some ''mouse'' \<rparr>) e (clock 0), [])"
| "dispatch s (TouchStart e) clock targetRect =
     Some (handleStart (handleEntry (s\<lparr> lastInputSource := Some ''touch'' \<rparr>) e (clock 0))
             e (clock 1) (clock 2), [])"
| "dispatch s (PointerDown pointerType e) clock targetRect =
     (if pointerType = ''touch'' then Some (defaultSource s ''touch'', [])
      else if pointerType = ''mouse''
      then Some (handleStart (defaultSource s ''mouse'') e (clock 0) (clock 1), [])
      else Some (s, []))"
| "dispatch s (MouseDown e) clock targetRect =
     Some (handleStart (defaultSource s ''mouse'') e (clock 0) (clock 1), [])"
| "dispatch s (MouseMove e) clock targetRect =
     (if isTracking s \<and> lastInputSource s = Some ''mouse''
      then Some (handleMove s e (clock 0), []) else Some (s, []))"
| "dispatch s (TouchMove e) clock targetRect =
     (if isTracking s \<and> lastInputSource s = Some ''touch''
      then Some (handleMove s e (clock 0), []) else Some (s, []))"
| "dispatch s (PointerMove pointerType e) clock targetRect =
     (if isTracking s
      then (if pointerType = ''touch'' \<and> lastInputSource s = Some ''touch''
            then Some (handleMove s e (clock 0), [])
            else if pointerType = ''mouse'' \<and> lastInputSource s = Some ''mouse''
            then Some (handleMove s e (clock 0), [])
            else Some (s, []))
      else Some (s, []))"
| "dispatch s MouseUp clock targetRect =
     (if isTracking s \<and> lastInputSource s = Some ''mouse''
      then handleEnd s (clock 0) targetRect else Some (s, []))"
| "dispatch s TouchEnd clock targetRect =
     (if isTracking s \<and> lastInputSource s = Some ''touch''
      then handleEnd s (clock 0) targetRect else Some (s, []))"
| "dispatch s PointerUp clock targetRect =
     (if isTracking s then handleEnd s (clock 0) targetRect else Some (s, []))"
| "dispatch s TouchCancel clock targetRect =
     (if isTracking s then handleEnd s (clock 0) targetRect else Some (s, []))"

section \<open>The specification's formulas and the example gestures\<close>

text \<open>
  The Fitts's-law check as the specification words it, over the reals: the index of
  difficulty \<open>max(0, log2(2D/(W+1) + 1))\<close>, the throughput of a modality, the expected
  movement time \<open>(ID / throughput) * 1000\<close> and the fraction of it below which a
  movement is a violation.
\<close>

definition spec_ID :: "real \<Rightarrow> real \<Rightarrow> real" where
  "spec_ID D W = max 0 (log 2 (2 * D / (W + 1) + 1))"

definition spec_throughput :: "InputType \<Rightarrow> real" where
  "spec_throughput ty = (if ty = TOUCH then 2.5 else 4)"

definition spec_expectedTime :: "InputType \<Rightarrow> real \<Rightarrow> real \<Rightarrow> real" where
  "spec_expectedTime ty D W = spec_ID D W / spec_throughput ty * 1000"

definition spec_fraction :: "InputType \<Rightarrow> real" where
  "spec_fraction ty = (if ty = TOUCH then 0.35 else 0.6)"

text \<open>
  The Linear Scorer as the specification words it, over the reals:
  \<open>z = bias + \<Sum>(weight[feature] * featureValue[feature])\<close> and
  \<open>probability = sigmoid(clamp(z, -100, 100))\<close>. A feature with no weight weighs
  \<open>0\<close>.
\<close>

text \<open>The fixed set of named features of a feature vector.\<close>

definition featureNames :: "string list" where
  "featureNames = [''fitts'', ''temporal'', ''decision'', ''jitter'', ''dwell'', ''speed'',
                   ''accel'', ''curvature'', ''entropy'', ''pauses'']"

definition spec_weight :: "(string \<times> real) list \<Rightarrow> string \<Rightarrow> real" where
  "spec_weight ws k = (case map_of ws k of None \<Rightarrow> 0 | Some w \<Rightarrow> w)"

definition spec_z :: "real \<Rightarrow> (string \<times> real) list \<Rightarrow> (string \<times> real) list \<Rightarrow> real" where
  "spec_z b ws xs = b + (\<Sum>(k, x) \<leftarrow> xs. spec_weight ws k * x)"

definition spec_clamp :: "real \<Rightarrow> real" where
  "spec_clamp z = max (- 100) (min 100 z)"

definition spec_sigmoid :: "real \<Rightarrow> real" where
  "spec_sigmoid z = 1 / (1 + exp (- z))"

definition spec_probability :: "real \<Rightarrow> (string \<times> real) list \<Rightarrow> (string \<times> real) list \<Rightarrow> real" where
  "spec_probability b ws xs = spec_sigmoid (spec_clamp (spec_z b ws xs))"

text \<open>A list of reals as JavaScript numbers.\<close>

definition Fins :: "(string \<times> real) list \<Rightarrow> (string \<times> jsnum) list" where
  "Fins xs = map (\<lambda>(k, x). (k, Fin x)) xs"

text \<open>
  An engine built with no option given, with one subscriber to \<open>'result'\<close>, and a
  mouse gesture on it: the mouse enters at \<open>(4, 2)\<close> at time 40, a press at
  \<open>(10, 20)\<close> at time 100, then a move to \<open>(13, 24)\<close> at time 116. The
  checkbox is the square of side 20 at the origin.
\<close>

definition engine0 :: Vhum where
  "engine0 =
     \<lparr> options = \<lparr> thresholdMouse = Fin 0.68, thresholdTouch = Fin 0.62 \<rparr>,
       points = [], isTracking = False, t_entry = Fin 0, t_down = Fin 0,
       entry_pos = (Fin 0, Fin 0), lastInputSource = None, inputType = UNKNOWN,
       nnMouse = new_AdaptivePerceptron MOUSE, nnTouch = new_AdaptivePerceptron TOUCH,
       nn = NnMouse, listeners = [''result'' \<mapsto> [1]] \<rparr>"

definition enter0 :: pointer where
  "enter0 = \<lparr> clientX = Fin 4, clientY = Fin 2 \<rparr>"

definition press0 :: pointer where
  "press0 = \<lparr> clientX = Fin 10, clientY = Fin 20 \<rparr>"

definition move0 :: pointer where
  "move0 = \<lparr> clientX = Fin 13, clientY = Fin 24 \<rparr>"

definition clock40 :: "nat \<Rightarrow> jsnum" where
  "clock40 k = Fin 40"

definition clock0 :: "nat \<Rightarrow> jsnum" where
  "clock0 k = Fin 100"

definition clock1 :: "nat \<Rightarrow> jsnum" where
  "clock1 k = Fin 116"

definition clock2 :: "nat \<Rightarrow> jsnum" where
  "clock2 k = Fin 150"

definition rect0 :: DOMRect where
  "rect0 = \<lparr> left = Fin 0, top' = Fin 0, width = Fin 20, height = Fin 20 \<rparr>"

definition entered0 :: Vhum where
  "entered0 = handleEntry (engine0\<lparr> lastInputSource := Some ''mouse'' \<rparr>) enter0 (Fin 40)"

definition pressed0 :: Vhum where
  "pressed0 = handleStart (defaultSource entered0 ''mouse'') press0 (Fin 100) (Fin 100)"

definition moved0 :: Vhum where
  "moved0 = handleMove pressed0 move0 (Fin 116)"

text \<open>Five samples at one place with one timestamp.\<close>

definition same5 :: "point list" where
  "same5 = [\<lparr> px = Fin 3, py = Fin 4, pt = Fin 100 \<rparr>,
            \<lparr> px = Fin 3, py = Fin 4, pt = Fin 100 \<rparr>,
            \<lparr> px = Fin 3, py = Fin 4, pt = Fin 100 \<rparr>,
            \<lparr> px = Fin 3, py = Fin 4, pt = Fin 100 \<rparr>,
            \<lparr> px = Fin 3, py = Fin 4, pt = Fin 100 \<rparr>]"

text \<open>A legacy verifier with the default sampling rate, and a mouse press on it.\<close>

definition verifier0 :: HumanVerifier where
  "verifier0 = new_HumanVerifier None"

definition mouse0 :: mouseEvent where
  "mouse0 = \<lparr> mouseEvent.clientX = Fin 10, mouseEvent.clientY = Fin 20, button = Fin 0 \<rparr>"

definition vpressed0 :: HumanVerifier where
  "vpressed0 = handleMouseDown verifier0 mouse0 (Fin 1000)"

text \<open>\<open>n\<close> mouse moves in a row, at the times \<open>ts\<close>.\<close>

fun mouseMoves :: "HumanVerifier \<Rightarrow> (mouseEvent \<times> jsnum) list \<Rightarrow> HumanVerifier" where
  "mouseMoves v [] = v"
| "mouseMoves v ((e, now) # es) = mouseMoves (handleMouseMove v e now) es"

text \<open>The two presets of \<open>_initializeWeights\<close> as reals.\<close>

definition presetWeights :: "InputType \<Rightarrow> (string \<times> real) list" where
  "presetWeights ty =
     (if ty = TOUCH then
        [(''fitts'', 1.6), (''temporal'', 1.3), (''decision'', 1.7), (''jitter'', 0.35),
         (''dwell'', 0.75), (''speed'', 0.35), (''accel'', 0.4), (''curvature'', 0.25),
         (''entropy'', 0.2), (''pauses'', 1.0)]
      else
        [(''fitts'', 2.2), (''temporal'', 2.1), (''decision'', 2.3), (''jitter'', 0.9),
         (''dwell'', 1.4), (''speed'', 0.5), (''accel'', 0.6), (''curvature'', 0.4),
         (''entropy'', 0.3), (''pauses'', 1.7)])"

definition presetBias :: "InputType \<Rightarrow> real" where
  "presetBias ty = (if ty = TOUCH then - 2.6 else - 3.2)"

text \<open>A feature vector with two features set.\<close>

definition features0 :: "(string \<times> real) list" where
  "features0 = [(''fitts'', 1), (''jitter'', 1)]"

text \<open>The same press by a direct call of \<open>handleStart\<close>: no input source is known.\<close>

definition anon0 :: Vhum where
  "anon0 = handleStart engine0 press0 (Fin 100) (Fin 100)"

text \<open>Five mouse moves on the legacy verifier.\<close>

definition moves5 :: "(mouseEvent \<times> jsnum) list" where
  "moves5 = [(mouse0, Fin 1001), (mouse0, Fin 1002), (mouse0, Fin 1003), (mouse0, Fin 1004),
             (mouse0, Fin 1005)]"

section \<open>Properties\<close>

subsection \<open>Evaluation and totality\<close>

text \<open>The operators on \<open>jsnum\<close>, to unfold when a number is evaluated.\<close>

lemmas jsnum_ops = plus_jsnum_def minus_jsnum_def uminus_jsnum_def times_jsnum_def
  divide_jsnum_def less_jsnum_def less_eq_jsnum_def

lemma reduce1_None_iff: "reduce1 f xs = None \<longleftrightarrow> xs = []"
  by (cases xs) simp_all

lemma loop_Nil_iff: "loop a n f = [] \<longleftrightarrow> n \<le> a"
  by (auto simp add: loop_def)

lemma analyzeJitter_total: "analyzeJitter ty pts \<noteq> None"
proof (cases "length pts < 5")
  case True
  then show ?thesis by (simp add: analyzeJitter_def)
next
  case False
  then show ?thesis
    unfolding analyzeJitter_def Let_def
    by (simp add: reduce1_None_iff loop_Nil_iff split: option.splits split del: if_split)
qed

lemma checkTemporalPrecision_total: "checkTemporalPrecision pts \<noteq> None"
proof (cases "length pts < 5")
  case True
  then show ?thesis by (simp add: checkTemporalPrecision_def)
next
  case False
  then show ?thesis
    unfolding checkTemporalPrecision_def Let_def
    by (simp add: reduce1_None_iff loop_Nil_iff split: option.splits split del: if_split)
qed

lemma analyzeJitterPattern_total: "1 < length pts \<Longrightarrow> analyzeJitterPattern pts \<noteq> None"
  unfolding analyzeJitterPattern_def Let_def
  by (simp add: reduce1_None_iff loop_Nil_iff split: option.splits split del: if_split)

lemma analyzeDwellCharacteristics_total: "analyzeDwellCharacteristics pts \<noteq> None"
proof (cases "length pts < 5")
  case True
  then show ?thesis by (simp add: analyzeDwellCharacteristics_def)
next
  case False
  then have "pts \<noteq> []" by auto
  with False show ?thesis
    unfolding analyzeDwellCharacteristics_def Let_def
    by (simp add: reduce1_None_iff split: option.splits split del: if_split)
qed

lemma detect_total: "detect pts src \<noteq> None"
proof (cases "src = Some ''touch'' \<or> src = Some ''mouse'' \<or> length pts < 10")
  case True
  then show ?thesis by (auto simp: detect_def)
next
  case False
  then have "1 < length pts" by simp
  from analyzeJitterPattern_total [OF this] obtain j where j: "analyzeJitterPattern pts = Some j"
    by blast
  from analyzeDwellCharacteristics_total obtain d where d: "analyzeDwellCharacteristics pts = Some d"
    by blast
  from False j d show ?thesis
    unfolding detect_def Let_def by simp
qed

lemma analyse_total: "analyse s now rect \<noteq> None"
proof -
  from detect_total obtain ty where ty: "detect (points s) (lastInputSource s) = Some ty"
    by blast
  from analyzeJitter_total obtain j where j: "analyzeJitter ty (points s) = Some j"
    by blast
  from checkTemporalPrecision_total obtain r where r: "checkTemporalPrecision (points s) = Some r"
    by blast
  show ?thesis
    using ty j r by (simp add: analyse_def Let_def split del: if_split)
qed

lemma finalize_total: "finalize s now rect \<noteq> None"
proof -
  from analyse_total obtain a where a: "analyse s now rect = Some a" by blast
  show ?thesis
    unfolding finalize_def a by (simp add: Let_def split: prod.splits split del: if_split)
qed

lemma analyse_fields:
  assumes "analyse s now rect = Some a"
  shows "detect (points s) (lastInputSource s) = Some (a_inputType a)"
    and "analyzeJitter (a_inputType a) (points s) = Some (a_jitter a)"
    and "checkTemporalPrecision (points s) = Some (a_temporalAnalysis a)"
    and "a_dwellTime a = now - t_down s"
    and "a_decisionTime a = Math_max (t_down s - t_entry s) (Fin 100)"
    and "a_movementTime a = now - t_entry s"
    and "a_D a = Math_hypot (left rect + width rect / Fin 2 - fst (entry_pos s))
                            (top' rect + height rect / Fin 2 - snd (entry_pos s))"
    and "a_W a = Math_min (width rect) (height rect)"
    and "a_ID a = Math_max (Fin 0) (Math_log2 (Fin 2 * a_D a / (a_W a + Fin 1) + Fin 1))"
    and "a_timeExpectedFitts a
           = a_ID a / (if a_inputType a = TOUCH then Fin 2.5 else Fin 4.0) * Fin 1000"
    and "a_fittsViolation a
           = (if a_inputType a = TOUCH then a_movementTime a < a_timeExpectedFitts a * Fin 0.35
              else a_movementTime a < a_timeExpectedFitts a * Fin 0.6)"
    and "a_speedStats a = analyzeSpeed (points s)"
    and "a_accelStats a = analyzeAcceleration (a_inputType a) (points s)"
    and "a_curvature a = analyzeCurvature (points s)"
    and "a_entropy a = analyzeEntropy (points s)"
    and "a_pauses a = countPauses (points s)"
    and "a_temporalViolation a
           = (if a_inputType a = TOUCH
              then isSuspicious (a_temporalAnalysis a)
                   \<and> perfectSync (a_temporalAnalysis a) > Fin 0.85
              else isSuspicious (a_temporalAnalysis a))"
    and "a_inputs a =
           [(''fitts'', flag (a_fittsViolation a)),
            (''temporal'', flag (a_temporalViolation a)),
            (''decision'',
               flag (a_decisionTime a < (if a_inputType a = TOUCH then Fin 220 else Fin 150))),
            (''jitter'', flag (isWhiteNoise (a_jitter a))),
            (''dwell'',
               flag (a_dwellTime a < (if a_inputType a = TOUCH then Fin 100 else Fin 40)
                     \<or> a_dwellTime a > (if a_inputType a = TOUCH then Fin 1500 else Fin 1000))),
            (''speed'', Fin 1 - speedStats.score (a_speedStats a)),
            (''accel'', Fin 1 - accelStats.score (a_accelStats a)),
            (''curvature'', Fin 1 - curvatureStats.score (a_curvature a)),
            (''entropy'', Math_abs (ToNumber (normalizedEntropy (a_entropy a)) - Fin 0.6)),
            (''pauses'', Fin 1 - pauseStats.score (a_pauses a))]"
  using assms unfolding analyse_def Let_def
  by (auto split: option.splits split del: if_split cong: if_cong)

lemma set_nn_frame [simp]:
  "options (set_nn s p) = options s"
  "points (set_nn s p) = points s"
  "isTracking (set_nn s p) = isTracking s"
  "t_entry (set_nn s p) = t_entry s"
  "t_down (set_nn s p) = t_down s"
  "entry_pos (set_nn s p) = entry_pos s"
  "lastInputSource (set_nn s p) = lastInputSource s"
  "Vhum.inputType (set_nn s p) = Vhum.inputType s"
  "nn (set_nn s p) = nn s"
  "listeners (set_nn s p) = listeners s"
  by (cases "nn s"; simp add: set_nn_def)+

lemma the_nn_set_nn [simp]: "the_nn (set_nn s p) = p"
  by (cases "nn s"; simp add: set_nn_def the_nn_def)

lemma finalize_fields:
  assumes "finalize s now rect = Some (s', r, calls)"
  shows "\<exists>a. analyse s now rect = Some a
           \<and> s' = set_nn (s\<lparr> Vhum.inputType := a_inputType a,
                              nn := (if a_inputType a = TOUCH then NnTouch else NnMouse),
                              t_entry := Fin 0 \<rparr>)
                      (fst (predict (the_nn (s\<lparr> Vhum.inputType := a_inputType a,
                              nn := (if a_inputType a = TOUCH then NnTouch else NnMouse),
                              t_entry := Fin 0 \<rparr>)) (a_inputs a)))
           \<and> Result.inputType r = a_inputType a
           \<and> thresholdUsed r = (if a_inputType a = TOUCH then thresholdTouch (options s)
                                 else thresholdMouse (options s))
           \<and> verdict r = (if snd (predict (the_nn (s\<lparr> Vhum.inputType := a_inputType a,
                              nn := (if a_inputType a = TOUCH then NnTouch else NnMouse),
                              t_entry := Fin 0 \<rparr>)) (a_inputs a)) > thresholdUsed r then 0 else 1)
           \<and> probability r = Math_round (snd (predict (the_nn (s\<lparr> Vhum.inputType := a_inputType a,
                              nn := (if a_inputType a = TOUCH then NnTouch else NnMouse),
                              t_entry := Fin 0 \<rparr>)) (a_inputs a)) * Fin 10000) / Fin 10000
           \<and> analysisDetails r =
                 \<lparr> dwell = a_dwellTime a, reaction = a_decisionTime a, fitts = a_ID a,
                   temporal = perfectSync (a_temporalAnalysis a), jitter = cv (a_jitter a),
                   speed = speedStats.score (a_speedStats a),
                   accel = accelStats.score (a_accelStats a),
                   curvature = curvatureStats.score (a_curvature a),
                   entropy = normalizedEntropy (a_entropy a),
                   pauses = pauseStats.score (a_pauses a) \<rparr>
           \<and> calls = emit s' ''result'' r"
  using assms unfolding finalize_def Let_def
  by (auto split: option.splits prod.splits split del: if_split cong: if_cong)

lemma finalize_points: "map_option (\<lambda>(s', r, calls). points s') (finalize s now rect) = Some (points s)"
proof -
  obtain s' r calls where f: "finalize s now rect = Some (s', r, calls)"
    using finalize_total [of s now rect] by (cases "finalize s now rect") auto
  from finalize_fields [OF f] show ?thesis by (auto simp: f)
qed

text \<open>The example gesture, evaluated; the DOM events produce it.\<close>

lemma entered0_eval:
  "entered0 = engine0\<lparr> lastInputSource := Some ''mouse'', t_entry := Fin 40,
                 entry_pos := (Fin 4, Fin 2) \<rparr>"
  by (simp add: entered0_def handleEntry_def enter0_def)

lemma pressed0_eval:
  "pressed0 = engine0\<lparr> lastInputSource := Some ''mouse'', t_entry := Fin 40,
                 entry_pos := (Fin 4, Fin 2), t_down := Fin 100, isTracking := True,
                 points := [\<lparr> px = Fin 10, py = Fin 20, pt = Fin 100 \<rparr>] \<rparr>"
  by (simp add: pressed0_def handleStart_def addPoint_def defaultSource_def entered0_eval
        engine0_def press0_def)

lemma moved0_eval:
  "moved0 = engine0\<lparr> lastInputSource := Some ''mouse'', t_entry := Fin 40,
                 entry_pos := (Fin 4, Fin 2), t_down := Fin 100, isTracking := True,
                 points := [\<lparr> px = Fin 10, py = Fin 20, pt = Fin 100 \<rparr>,
                            \<lparr> px = Fin 13, py = Fin 24, pt = Fin 116 \<rparr>] \<rparr>"
  by (simp add: moved0_def pressed0_eval handleMove_def addPoint_def move0_def)

lemma gesture0_dispatch:
  "dispatch engine0 (MouseEnter enter0) clock40 rect0 = Some (entered0, [])"
  "dispatch entered0 (MouseDown press0) clock0 rect0 = Some (pressed0, [])"
  "dispatch pressed0 (MouseMove move0) clock1 rect0 = Some (moved0, [])"
  by (simp_all add: entered0_def pressed0_def moved0_def clock40_def clock0_def clock1_def)
     (simp add: handleStart_def addPoint_def defaultSource_def handleEntry_def)

lemma handleEnd_points:
  "map_option (\<lambda>(s', calls). points s') (handleEnd s now rect) = Some (points s)"
proof (cases "isTracking s")
  case False
  then show ?thesis by (simp add: handleEnd_def)
next
  case True
  obtain s' r calls where f: "finalize (s\<lparr> isTracking := False \<rparr>) now rect = Some (s', r, calls)"
    using finalize_total [of "s\<lparr> isTracking := False \<rparr>" now rect]
    by (cases "finalize (s\<lparr> isTracking := False \<rparr>) now rect") auto
  from finalize_points [of "s\<lparr> isTracking := False \<rparr>" now rect] f
  have "points s' = points s" by simp
  with True f show ?thesis by (simp add: handleEnd_def)
qed

text \<open>The legacy verifier: the remainder of the counter, one move, a run of moves.\<close>

lemma trunc_nat_div: "trunc (real k / real N) = int (k div N)"
proof -
  have "0 \<le> real k / real N" by simp
  then have "trunc (real k / real N) = \<lfloor>real k / real N\<rfloor>" by (simp add: trunc_def)
  also have "\<dots> = int (k div N)" by (simp add: floor_divide_of_nat_eq)
  finally show ?thesis .
qed

lemma jrem_num: "0 < N \<Longrightarrow> jrem (num k) (num N) = num (k mod N)"
proof -
  assume N: "0 < N"
  have "real k - real N * real (k div N) = real (k mod N)"
  proof -
    have "real k = real (N * (k div N) + k mod N)" by simp
    then show ?thesis by (simp only: of_nat_add of_nat_mult)
  qed
  with N show ?thesis by (simp add: num_def trunc_nat_div)
qed

lemma jeq_num_zero: "jeq (num m) (Fin 0) \<longleftrightarrow> m = 0"
  by (auto simp: jeq_def num_def)

lemma num_Suc: "num k + Fin 1 = num (Suc k)"
  by (simp add: num_def plus_jsnum_def add.commute)

lemma handleMouseMove_step:
  assumes "HumanVerifier.isTracking v"
    and "map_option gestureType (dataObject v) = Some ''MOUSE''"
    and "moveSampleRate v = num N" and "0 < N" and "moveCounter v = num k"
  shows "handleMouseMove v e now
           = v\<lparr> moveCounter := num (Suc k),
                moveEvents := (if N dvd Suc k then moveEvents v @ [getMouseData e now]
                               else moveEvents v) \<rparr>"
  using assms
  by (simp add: handleMouseMove_def Let_def num_Suc jrem_num jeq_num_zero dvd_eq_mod_eq_0)

lemma mouseMoves_run:
  assumes "HumanVerifier.isTracking v"
    and "map_option gestureType (dataObject v) = Some ''MOUSE''"
    and "moveSampleRate v = num N" and "0 < N" and "moveCounter v = num k"
  shows "moveCounter (mouseMoves v es) = num (k + length es)
         \<and> moveEvents (mouseMoves v es)
             = moveEvents v
               @ map (\<lambda>(e, now). getMouseData e now) (nths es {i. N dvd Suc (k + i)})"
  using assms
proof (induction es arbitrary: v k)
  case Nil
  then show ?case by simp
next
  case (Cons a es)
  obtain e now where a: "a = (e, now)" by (cases a)
  let ?v = "handleMouseMove v e now"
  have step: "?v = v\<lparr> moveCounter := num (Suc k),
                moveEvents := (if N dvd Suc k then moveEvents v @ [getMouseData e now]
                               else moveEvents v) \<rparr>"
    using Cons.prems by (rule handleMouseMove_step)
  have ih: "moveCounter (mouseMoves ?v es) = num (Suc k + length es)
         \<and> moveEvents (mouseMoves ?v es)
             = moveEvents ?v
               @ map (\<lambda>(e, now). getMouseData e now) (nths es {i. N dvd Suc (Suc k + i)})"
    by (rule Cons.IH) (use Cons.prems in \<open>simp_all add: step\<close>)
  have set_eq: "{j. Suc j \<in> {i. N dvd Suc (k + i)}} = {i. N dvd Suc (Suc k + i)}"
    by simp
  show ?case
    using ih by (simp add: a nths_Cons set_eq step)
qed


lemma card_multiples: "card {i. i < n \<and> N dvd Suc i} = n div N"
proof (induction n)
  case 0
  then show ?case by simp
next
  case (Suc n)
  have split: "{i. i < Suc n \<and> N dvd Suc i}
               = {i. i < n \<and> N dvd Suc i} \<union> (if N dvd Suc n then {n} else {})"
    by (auto simp: less_Suc_eq)
  have fin: "finite {i. i < n \<and> N dvd Suc i}" by simp
  have notin: "n \<notin> {i. i < n \<and> N dvd Suc i}" by simp
  show ?case
  proof (cases "N dvd Suc n")
    case True
    then have "Suc n div N = Suc (n div N)" by (simp add: div_Suc dvd_eq_mod_eq_0)
    with True Suc.IH fin notin show ?thesis unfolding split by simp
  next
    case False
    then have "Suc n div N = n div N" by (simp add: div_Suc dvd_eq_mod_eq_0)
    with False Suc.IH show ?thesis unfolding split by simp
  qed
qed

lemma length_nths_multiples: "length (nths es {i. N dvd Suc i}) = length es div N"
  by (simp add: length_nths card_multiples)

lemma handleMouseDown_accepts:
  assumes "\<not> HumanVerifier.isTracking v" and "\<not> now < touchEndBlock v"
    and "button e = Fin 0"
  shows "handleMouseDown v e now
           = v\<lparr> HumanVerifier.isTracking := True, moveEvents := [], moveCounter := Fin 0,
                dataObject := Some \<lparr> gestureType = ''MOUSE'', startTimestamp = now,
                                       startData = Some (getMouseData e now) \<rparr> \<rparr>"
  using assms by (simp add: handleMouseDown_def jeq_def)

text \<open>The perceptron on real inputs, and what \<open>predict\<close> reads and writes.\<close>

lemma jor_Fin: "jor (Fin x) (Fin 0) = Fin x"
  by (simp add: jor_def)

lemma map_of_Fins: "map_of (Fins xs) k = map_option Fin (map_of xs k)"
  by (induction xs) (auto simp: Fins_def)

lemma fst_Fins: "map fst (Fins xs) = map fst xs"
  by (simp add: Fins_def case_prod_unfold)

lemma sigmoid_Fin: "sigmoid (Fin z) = Fin (spec_sigmoid (spec_clamp z))"
proof -
  have pos: "1 + exp (- max (- 100) (min 100 z)) \<noteq> 0"
    using exp_gt_zero [of "- max (- 100) (min 100 z)"] by linarith
  have mn: "Math_min (Fin 100) (Fin z) = Fin (min 100 z)"
    by (simp add: min_def)
  have mx: "Math_max (Fin (- 100)) (Fin (min 100 z)) = Fin (max (- 100) (min 100 z))"
    by (simp add: max_def)
  show ?thesis
    unfolding sigmoid_def mn mx spec_sigmoid_def spec_clamp_def
    using pos by (simp add: jsnum_ops)
qed

lemma weight_Fins:
  assumes "k \<in> fst ` set ws"
  shows "(case map_of (Fins ws) k of
            None \<Rightarrow> (if k \<in> set objectPrototypeKeys then NaN else Fin 0)
          | Some v \<Rightarrow> jor v (Fin 0))
         = Fin (spec_weight ws k)"
proof -
  from assms obtain w where "map_of ws k = Some w"
    by (cases "map_of ws k") (auto simp: map_of_eq_None_iff)
  then show ?thesis
    by (simp add: map_of_Fins spec_weight_def jor_Fin)
qed

lemma predict_loop:
  assumes "distinct (map fst xs)" and "fst ` set xs \<subseteq> fst ` set ws"
    and "set ys \<subseteq> set xs"
  shows "foldl (\<lambda>z key.
                  z + (case map_of (Fins xs) key of None \<Rightarrow> Fin 0 | Some v \<Rightarrow> jor v (Fin 0))
                      * (case map_of (Fins ws) key of
                           None \<Rightarrow> (if key \<in> set objectPrototypeKeys then NaN else Fin 0)
                         | Some v \<Rightarrow> jor v (Fin 0)))
               (Fin acc) (map fst ys)
         = Fin (acc + (\<Sum>(k, x) \<leftarrow> ys. spec_weight ws k * x))"
  using assms(3)
proof (induction ys arbitrary: acc)
  case Nil
  then show ?case by simp
next
  case (Cons a ys)
  obtain k x where a: "a = (k, x)" by (cases a)
  with Cons.prems have mem: "(k, x) \<in> set xs" by simp
  with assms(1) have look: "map_of xs k = Some x" by simp
  from mem assms(2) have "k \<in> fst ` set ws" by force
  then have w: "(case map_of (Fins ws) k of
                   None \<Rightarrow> (if k \<in> set objectPrototypeKeys then NaN else Fin 0)
                 | Some v \<Rightarrow> jor v (Fin 0))
                = Fin (spec_weight ws k)"
    by (rule weight_Fins)
  have step: "Fin acc + (case map_of (Fins xs) k of None \<Rightarrow> Fin 0 | Some v \<Rightarrow> jor v (Fin 0))
                * Fin (spec_weight ws k)
              = Fin (acc + spec_weight ws k * x)"
    by (simp add: map_of_Fins look jor_Fin jsnum_ops mult.commute)
  from Cons.prems have sub: "set ys \<subseteq> set xs" by simp
  show ?case
    using Cons.IH [OF sub, of "acc + spec_weight ws k * x"]
    unfolding a by (simp only: list.map fst_conv foldl_Cons w step) (simp add: add.assoc)
qed

lemma predict_Fins:
  assumes "weights q = Fins ws" and "bias q = Fin b" and "distinct (map fst xs)"
    and "fst ` set xs \<subseteq> fst ` set ws"
  shows "predict q (Fins xs)
           = (q\<lparr> lastZ := Some (Fin (spec_z b ws xs)),
                  lastP := Some (Fin (spec_probability b ws xs)) \<rparr>,
              Fin (spec_probability b ws xs))"
proof -
  have z: "foldl (\<lambda>z key.
                  z + (case map_of (Fins xs) key of None \<Rightarrow> Fin 0 | Some v \<Rightarrow> jor v (Fin 0))
                      * (case map_of (Fins ws) key of
                           None \<Rightarrow> (if key \<in> set objectPrototypeKeys then NaN else Fin 0)
                         | Some v \<Rightarrow> jor v (Fin 0)))
               (Fin b) (map fst xs)
         = Fin (spec_z b ws xs)"
    using predict_loop [OF assms(3,4), of xs b] by (simp add: spec_z_def)
  show ?thesis
    unfolding predict_def assms(1,2) fst_Fins Let_def z
    by (simp add: sigmoid_Fin spec_probability_def)
qed

text \<open>A key inherited from \<open>Object.prototype\<close> makes the score \<open>NaN\<close>.\<close>

lemma predict_inherited_key:
  "snd (predict (new_AdaptivePerceptron MOUSE) [(''constructor'', Fin 1)]) = NaN"
  by (simp add: predict_def Let_def new_AdaptivePerceptron_def initializeWeights_def
        objectPrototypeKeys_def jor_def sigmoid_def jsnum_ops)

lemma presetWeights_names: "map fst (presetWeights ty) = featureNames"
  by (simp add: presetWeights_def featureNames_def)

lemma initializeWeights_preset:
  "initializeWeights ty = (Fins (presetWeights ty), Fin (presetBias ty))"
  by (simp add: initializeWeights_def presetWeights_def presetBias_def Fins_def)

lemma predict_lastP: "lastP (fst (predict q xs)) = Some (snd (predict q xs))"
  by (simp add: predict_def Let_def)

lemma predict_cong:
  "weights q' = weights q \<Longrightarrow> bias q' = bias q \<Longrightarrow> snd (predict q' xs) = snd (predict q xs)"
  by (simp add: predict_def Let_def)

lemma predict_keeps:
  "weights (fst (predict q xs)) = weights q" "bias (fst (predict q xs)) = bias q"
  by (simp_all add: predict_def Let_def)

lemma analyse_cong:
  assumes "points s2 = points s1" and "lastInputSource s2 = lastInputSource s1"
    and "t_down s2 = t_down s1" and "t_entry s2 = t_entry s1" and "entry_pos s2 = entry_pos s1"
  shows "analyse s2 now rect = analyse s1 now rect"
  unfolding analyse_def assms ..

lemma detect_unknown:
  "src = None \<Longrightarrow> length pts < 10 \<Longrightarrow> detect pts src = Some UNKNOWN"
  by (simp add: detect_def)

text \<open>The Fitts's-law check on finite numbers.\<close>

lemma fitts_ID_Fin:
  assumes "0 \<le> D" and "0 \<le> W"
  shows "Math_max (Fin 0) (Math_log2 (Fin 2 * Fin D / (Fin W + Fin 1) + Fin 1)) = Fin (spec_ID D W)"
proof -
  from assms have W1: "W + 1 \<noteq> 0" by linarith
  from assms have "0 \<le> 2 * D / (W + 1)" by simp
  then have arg: "0 < 2 * D / (W + 1) + 1" by linarith
  have "Fin 2 * Fin D / (Fin W + Fin 1) + Fin 1 = Fin (2 * D / (W + 1) + 1)"
    using W1 by (simp add: jsnum_ops)
  moreover have "Math_log2 (Fin (2 * D / (W + 1) + 1)) = Fin (log 2 (2 * D / (W + 1) + 1))"
    using arg by simp
  moreover have "Math_max (Fin 0) (Fin (log 2 (2 * D / (W + 1) + 1)))
                 = Fin (max 0 (log 2 (2 * D / (W + 1) + 1)))"
    by (simp add: max_def)
  ultimately show ?thesis by (simp add: spec_ID_def)
qed

lemma fitts_time_Fin:
  "Fin i / (if ty = TOUCH then Fin 2.5 else Fin 4.0) * Fin 1000
     = Fin (i / spec_throughput ty * 1000)"
  by (simp add: jsnum_ops spec_throughput_def)

lemma fitts_violation_Fin:
  "(if ty = TOUCH then Fin mt < Fin e * Fin 0.35 else Fin mt < Fin e * Fin 0.6)
     \<longleftrightarrow> mt < spec_fraction ty * e"
  by (simp add: jsnum_ops spec_fraction_def mult.commute)

text \<open>The result of \<open>finalize\<close> depends on the fields listed here only.\<close>

lemma the_nn_selected:
  "the_nn (s\<lparr> Vhum.inputType := ty, nn := ref, t_entry := z \<rparr>)
     = (case ref of NnMouse \<Rightarrow> nnMouse s | NnTouch \<Rightarrow> nnTouch s)"
  by (cases ref) (simp_all add: the_nn_def)

lemma finalize_depends_only_on_inputs:
  assumes "points s2 = points s1" and "lastInputSource s2 = lastInputSource s1"
    and "t_down s2 = t_down s1" and "t_entry s2 = t_entry s1" and "entry_pos s2 = entry_pos s1"
    and "options s2 = options s1" and "listeners s2 = listeners s1"
    and "weights (nnMouse s2) = weights (nnMouse s1)" and "bias (nnMouse s2) = bias (nnMouse s1)"
    and "weights (nnTouch s2) = weights (nnTouch s1)" and "bias (nnTouch s2) = bias (nnTouch s1)"
  shows "map_option snd (finalize s2 now rect) = map_option snd (finalize s1 now rect)"
proof -
  obtain s1' r1 c1 where f1: "finalize s1 now rect = Some (s1', r1, c1)"
    using finalize_total [of s1 now rect] by (cases "finalize s1 now rect") auto
  obtain s2' r2 c2 where f2: "finalize s2 now rect = Some (s2', r2, c2)"
    using finalize_total [of s2 now rect] by (cases "finalize s2 now rect") auto
  from finalize_fields [OF f1] obtain a1 where a1: "analyse s1 now rect = Some a1"
    and g1: "s1' = set_nn (s1\<lparr> Vhum.inputType := a_inputType a1,
                              nn := (if a_inputType a1 = TOUCH then NnTouch else NnMouse),
                              t_entry := Fin 0 \<rparr>)
                      (fst (predict (the_nn (s1\<lparr> Vhum.inputType := a_inputType a1,
                              nn := (if a_inputType a1 = TOUCH then NnTouch else NnMouse),
                              t_entry := Fin 0 \<rparr>)) (a_inputs a1)))"
      "Result.inputType r1 = a_inputType a1"
      "thresholdUsed r1 = (if a_inputType a1 = TOUCH then thresholdTouch (options s1)
                                 else thresholdMouse (options s1))"
      "verdict r1 = (if snd (predict (the_nn (s1\<lparr> Vhum.inputType := a_inputType a1,
                              nn := (if a_inputType a1 = TOUCH then NnTouch else NnMouse),
                              t_entry := Fin 0 \<rparr>)) (a_inputs a1)) > thresholdUsed r1 then 0 else 1)"
      "probability r1 = Math_round (snd (predict (the_nn (s1\<lparr> Vhum.inputType := a_inputType a1,
                              nn := (if a_inputType a1 = TOUCH then NnTouch else NnMouse),
                              t_entry := Fin 0 \<rparr>)) (a_inputs a1)) * Fin 10000) / Fin 10000"
      "analysisDetails r1 =
                 \<lparr> dwell = a_dwellTime a1, reaction = a_decisionTime a1, fitts = a_ID a1,
                   temporal = perfectSync (a_temporalAnalysis a1), jitter = cv (a_jitter a1),
                   speed = speedStats.score (a_speedStats a1),
                   accel = accelStats.score (a_accelStats a1),
                   curvature = curvatureStats.score (a_curvature a1),
                   entropy = normalizedEntropy (a_entropy a1),
                   pauses = pauseStats.score (a_pauses a1) \<rparr>"
      "c1 = emit s1' ''result'' r1"
    by blast
  from finalize_fields [OF f2] obtain a2 where a2: "analyse s2 now rect = Some a2"
    and g2: "s2' = set_nn (s2\<lparr> Vhum.inputType := a_inputType a2,
                              nn := (if a_inputType a2 = TOUCH then NnTouch else NnMouse),
                              t_entry := Fin 0 \<rparr>)
                      (fst (predict (the_nn (s2\<lparr> Vhum.inputType := a_inputType a2,
                              nn := (if a_inputType a2 = TOUCH then NnTouch else NnMouse),
                              t_entry := Fin 0 \<rparr>)) (a_inputs a2)))"
      "Result.inputType r2 = a_inputType a2"
      "thresholdUsed r2 = (if a_inputType a2 = TOUCH then thresholdTouch (options s2)
                                 else thresholdMouse (options s2))"
      "verdict r2 = (if snd (predict (the_nn (s2\<lparr> Vhum.inputType := a_inputType a2,
                              nn := (if a_inputType a2 = TOUCH then NnTouch else NnMouse),
                              t_entry := Fin 0 \<rparr>)) (a_inputs a2)) > thresholdUsed r2 then 0 else 1)"
      "probability r2 = Math_round (snd (predict (the_nn (s2\<lparr> Vhum.inputType := a_inputType a2,
                              nn := (if a_inputType a2 = TOUCH then NnTouch else NnMouse),
                              t_entry := Fin 0 \<rparr>)) (a_inputs a2)) * Fin 10000) / Fin 10000"
      "analysisDetails r2 =
                 \<lparr> dwell = a_dwellTime a2, reaction = a_decisionTime a2, fitts = a_ID a2,
                   temporal = perfectSync (a_temporalAnalysis a2), jitter = cv (a_jitter a2),
                   speed = speedStats.score (a_speedStats a2),
                   accel = accelStats.score (a_accelStats a2),
                   curvature = curvatureStats.score (a_curvature a2),
                   entropy = normalizedEntropy (a_entropy a2),
                   pauses = pauseStats.score (a_pauses a2) \<rparr>"
      "c2 = emit s2' ''result'' r2"
    by blast
  have "analyse s2 now rect = analyse s1 now rect"
    using assms(1-5) by (rule analyse_cong)
  with a1 a2 have aa: "a2 = a1" by simp
  have pp: "snd (predict (the_nn (s2\<lparr> Vhum.inputType := a_inputType a1,
                              nn := (if a_inputType a1 = TOUCH then NnTouch else NnMouse),
                              t_entry := Fin 0 \<rparr>)) (a_inputs a1))
          = snd (predict (the_nn (s1\<lparr> Vhum.inputType := a_inputType a1,
                              nn := (if a_inputType a1 = TOUCH then NnTouch else NnMouse),
                              t_entry := Fin 0 \<rparr>)) (a_inputs a1))"
    unfolding the_nn_selected using assms(8-11) by (auto intro: predict_cong)
  have rr: "r2 = r1"
    using g1(2-6) g2(2-6) pp assms(6) unfolding aa by (intro Result.equality) simp_all
  have ll: "listeners s2' = listeners s1'"
    unfolding g1(1) g2(1) using assms(7) by simp
  have cc: "c2 = c1"
    unfolding g1(7) g2(7) rr emit_def ll ..
  show ?thesis
    unfolding f1 f2 using rr cc by simp
qed

text \<open>The entropy feature of a stream of fewer than four points.\<close>

lemma entropy_feature_short:
  assumes "analyse s now rect = Some a" and "length (points s) < 4"
  shows "map_of (a_inputs a) ''entropy'' = Some NaN"
    and "normalizedEntropy (a_entropy a) = None"
proof -
  note f = analyse_fields [OF assms(1)]
  show n: "normalizedEntropy (a_entropy a) = None"
    unfolding f(15) using assms(2) by (simp add: analyzeEntropy_def)
  show "map_of (a_inputs a) ''entropy'' = Some NaN"
    unfolding f(18) by (simp add: n jsnum_ops)
qed

subsection \<open>The press, the moves and the release\<close>

text \<open>
  C1, as the specification states it: a press while the engine is tracking is ignored,
  the points, the press timestamp and the rest of the gesture context stay as they were.
  \<open>handleStart\<close> has no such guard. At the example gesture (a press and a move, so
  two points and \<open>t_down = 100\<close>) a second press at time 130 leaves one point, the
  new press, and \<open>t_down = 130\<close>.
\<close>

theorem handleStart_while_tracking_counterexample:
  "isTracking moved0
   \<and> points moved0 = [\<lparr> px = Fin 10, py = Fin 20, pt = Fin 100 \<rparr>,
                      \<lparr> px = Fin 13, py = Fin 24, pt = Fin 116 \<rparr>]
   \<and> t_down moved0 = Fin 100
   \<and> points (handleStart moved0 move0 (Fin 130) (Fin 130))
       = [\<lparr> px = Fin 13, py = Fin 24, pt = Fin 130 \<rparr>]
   \<and> t_down (handleStart moved0 move0 (Fin 130) (Fin 130)) = Fin 130
   \<and> handleStart moved0 move0 (Fin 130) (Fin 130) \<noteq> moved0"
proof -
  have a: "points (handleStart moved0 move0 (Fin 130) (Fin 130))
           = [\<lparr> px = Fin 13, py = Fin 24, pt = Fin 130 \<rparr>]"
    by (simp add: handleStart_def addPoint_def move0_def)
  have b: "points moved0 = [\<lparr> px = Fin 10, py = Fin 20, pt = Fin 100 \<rparr>,
                      \<lparr> px = Fin 13, py = Fin 24, pt = Fin 116 \<rparr>]"
    by (simp add: moved0_eval)
  have c: "handleStart moved0 move0 (Fin 130) (Fin 130) \<noteq> moved0"
    using a b by auto
  show ?thesis
    using a b c by (simp add: handleStart_def addPoint_def) (simp add: moved0_eval)
qed

text \<open>
  C1, amended: a press while the engine is tracking restarts the gesture. The press
  timestamp becomes the time of the new press and the points become the one sample of the
  new press; the tracking flag stays true and nothing else of the engine changes (entry
  timestamp and position, input source, resolved input type, perceptrons, options,
  subscribers).
\<close>

theorem handleStart_while_tracking:
  "isTracking s \<Longrightarrow>
     handleStart s e now now'
       = s\<lparr> t_down := now, points := [\<lparr> px = clientX e, py = clientY e, pt = now' \<rparr>] \<rparr>"
  by (simp add: handleStart_def addPoint_def)

text \<open>The amended C1 at the example gesture.\<close>

theorem handleStart_while_tracking_witness:
  "isTracking moved0 \<and>
   handleStart moved0 move0 (Fin 130) (Fin 130)
     = moved0\<lparr> t_down := Fin 130, points := [\<lparr> px = Fin 13, py = Fin 24, pt = Fin 130 \<rparr>] \<rparr>"
proof -
  have tr: "isTracking moved0" by (simp add: moved0_eval)
  from handleStart_while_tracking [OF tr, of move0 "Fin 130" "Fin 130"] tr
  show ?thesis by (simp add: move0_def)
qed

text \<open>
  C5, as the specification states it: the points are cleared at press and again at
  completion, after \<open>finalize\<close> has emitted the result. \<open>finalize\<close> never writes
  \<open>this.points\<close>: after the release of the example gesture the engine still holds its
  two points.
\<close>

theorem points_kept_at_completion_counterexample:
  "map_option (\<lambda>(s', calls). points s') (dispatch moved0 MouseUp clock2 rect0)
     = Some [\<lparr> px = Fin 10, py = Fin 20, pt = Fin 100 \<rparr>,
             \<lparr> px = Fin 13, py = Fin 24, pt = Fin 116 \<rparr>]"
proof -
  have "isTracking moved0 \<and> lastInputSource moved0 = Some ''mouse''"
    by (simp add: moved0_eval)
  then have "dispatch moved0 MouseUp clock2 rect0 = handleEnd moved0 (clock2 0) rect0"
    by simp
  then show ?thesis
    using handleEnd_points [of moved0 "clock2 0" rect0] by (simp add: moved0_eval)
qed

text \<open>
  C5, amended: the points are reset at the start of each gesture and only there. A press
  replaces them by the one sample of the press, whatever they held, so no sample of an
  earlier gesture is in the stream of a new one; \<open>finalize\<close> and \<open>handleEnd\<close>
  always return, and leave the points as they were: they are not cleared at completion.
\<close>

theorem points_reset_at_press_only:
  "points (handleStart s e now now') = [\<lparr> px = clientX e, py = clientY e, pt = now' \<rparr>]
   \<and> map_option (\<lambda>(s', r, calls). points s') (finalize s now rect) = Some (points s)
   \<and> map_option (\<lambda>(s', calls). points s') (handleEnd s now rect) = Some (points s)"
  by (simp add: handleStart_def addPoint_def finalize_points handleEnd_points)

text \<open>
  C6, as the specification states it: while tracking only every fifth move is retained in
  the points. \<open>Vhum.handleMove\<close> has no divisor and no counter: the first move after
  the press of the example gesture is retained.
\<close>

theorem every_move_retained_counterexample:
  "isTracking pressed0
   \<and> points pressed0 = [\<lparr> px = Fin 10, py = Fin 20, pt = Fin 100 \<rparr>]
   \<and> points (handleMove pressed0 move0 (Fin 116))
       = [\<lparr> px = Fin 10, py = Fin 20, pt = Fin 100 \<rparr>,
          \<lparr> px = Fin 13, py = Fin 24, pt = Fin 116 \<rparr>]"
  by (simp add: pressed0_eval handleMove_def addPoint_def move0_def)

text \<open>
  C6, amended: the legacy \<open>HumanVerifier\<close> downsamples moves by its
  \<open>moveSampleRate\<close> (5 by default), the \<open>Vhum\<close> engine does not. In the verifier,
  after a mouse press that it accepts, a run of mouse moves leaves \<open>moveCounter\<close> at
  the number of moves, and \<open>moveEvents\<close> holds the samples of the moves number
  \<open>N\<close>, \<open>2N\<close>, ... and no other: every raw move counts, every \<open>N\<close>-th is
  retained. In the engine a move while tracking is always appended to the points.
\<close>

theorem move_sampling:
  assumes "0 < N" and "moveSampleRate v = num N"
    and "\<not> HumanVerifier.isTracking v" and "\<not> now0 < touchEndBlock v"
    and "button e0 = Fin 0"
    and "Vhum.isTracking s"
  shows "moveCounter (mouseMoves (handleMouseDown v e0 now0) es) = num (length es)
    \<and> moveEvents (mouseMoves (handleMouseDown v e0 now0) es)
           = map (\<lambda>(e, now). getMouseData e now) (nths es {i. N dvd Suc i})
    \<and> length (moveEvents (mouseMoves (handleMouseDown v e0 now0) es)) = length es div N
    \<and> moveSampleRate (new_HumanVerifier None) = num 5
    \<and> points (handleMove s p now)
           = points s @ [\<lparr> px = clientX p, py = clientY p, pt = now \<rparr>]"
proof -
  let ?v = "handleMouseDown v e0 now0"
  have down: "?v = v\<lparr> HumanVerifier.isTracking := True, moveEvents := [], moveCounter := Fin 0,
                dataObject := Some \<lparr> gestureType = ''MOUSE'', startTimestamp = now0,
                                       startData = Some (getMouseData e0 now0) \<rparr> \<rparr>"
    using assms(3-5) by (rule handleMouseDown_accepts)
  have run: "moveCounter (mouseMoves ?v es) = num (0 + length es)
         \<and> moveEvents (mouseMoves ?v es)
             = moveEvents ?v
               @ map (\<lambda>(e, now). getMouseData e now) (nths es {i. N dvd Suc (0 + i)})"
    by (rule mouseMoves_run) (use assms(1,2) in \<open>simp_all add: down num_def\<close>)
  have cnt: "moveCounter (mouseMoves ?v es) = num (length es)"
    using run by simp
  have ev: "moveEvents (mouseMoves ?v es)
           = map (\<lambda>(e, now). getMouseData e now) (nths es {i. N dvd Suc i})"
    using run by (simp add: down)
  have len: "length (moveEvents (mouseMoves ?v es)) = length es div N"
    unfolding ev by (simp add: length_nths_multiples)
  have rate: "moveSampleRate (new_HumanVerifier None) = num 5"
    by (simp add: new_HumanVerifier_def num_def)
  have v3: "points (handleMove s p now)
           = points s @ [\<lparr> px = clientX p, py = clientY p, pt = now \<rparr>]"
    using assms(6) by (simp add: handleMove_def addPoint_def)
  show ?thesis
    using cnt ev len rate v3 by simp
qed

text \<open>The amended C6 at five moves after a press on a verifier with the default rate, and
  at the move of the example gesture.\<close>

theorem move_sampling_witness:
  "moveCounter (mouseMoves vpressed0 moves5) = Fin 5
   \<and> moveEvents (mouseMoves vpressed0 moves5) = [getMouseData mouse0 (Fin 1005)]
   \<and> length (moveEvents (mouseMoves vpressed0 moves5)) = 1
   \<and> length (points (handleMove pressed0 move0 (Fin 116))) = 2"
proof -
  have h0: "(0::nat) < 5" by simp
  have h1: "moveSampleRate verifier0 = num 5"
    by (simp add: verifier0_def new_HumanVerifier_def num_def)
  have h2: "\<not> HumanVerifier.isTracking verifier0"
    by (simp add: verifier0_def new_HumanVerifier_def)
  have h3: "\<not> Fin 1000 < touchEndBlock verifier0"
    by (simp add: verifier0_def new_HumanVerifier_def less_jsnum_def)
  have h4: "button mouse0 = Fin 0" by (simp add: mouse0_def)
  have h5: "Vhum.isTracking pressed0"
    by (simp add: pressed0_eval)
  have n: "nths moves5 {i. 5 dvd Suc i} = [(mouse0, Fin 1005)]"
    by (simp add: moves5_def nths_Cons dvd_eq_mod_eq_0 mod_Suc)
  have p: "length (points pressed0) = 1"
    by (simp add: pressed0_eval)
  have l: "length moves5 = 5" by (simp add: moves5_def)
  from move_sampling [OF h0 h1 h2 h3 h4 h5, of moves5 move0 "Fin 116"]
  show ?thesis
    by (simp add: vpressed0_def n p l num_def)
qed

text \<open>
  C10: a release or a cancel that arrives while the engine is not tracking changes
  nothing and calls no subscriber, through \<open>handleEnd\<close> and through each of the four
  listeners of \<open>mouseup\<close>, \<open>touchend\<close>, \<open>pointerup\<close> and \<open>touchcancel\<close>.
\<close>

theorem handleEnd_not_tracking:
  "\<not> isTracking s \<Longrightarrow>
     handleEnd s now targetRect = Some (s, [])
     \<and> dispatch s MouseUp clock targetRect = Some (s, [])
     \<and> dispatch s TouchEnd clock targetRect = Some (s, [])
     \<and> dispatch s PointerUp clock targetRect = Some (s, [])
     \<and> dispatch s TouchCancel clock targetRect = Some (s, [])"
  by (simp add: handleEnd_def)

text \<open>C10 at the engine as constructed, which has a subscriber and is not tracking.\<close>

theorem handleEnd_not_tracking_witness:
  "\<not> isTracking engine0
     \<and> handleEnd engine0 (Fin 150) rect0 = Some (engine0, [])
     \<and> dispatch engine0 MouseUp clock2 rect0 = Some (engine0, [])
     \<and> dispatch engine0 TouchEnd clock2 rect0 = Some (engine0, [])
     \<and> dispatch engine0 PointerUp clock2 rect0 = Some (engine0, [])
     \<and> dispatch engine0 TouchCancel clock2 rect0 = Some (engine0, [])"
proof -
  have idle: "\<not> isTracking engine0" by (simp add: engine0_def)
  from handleEnd_not_tracking [OF idle, of "Fin 150" rect0 clock2] idle
  show ?thesis by simp
qed

subsection \<open>The analysis at release\<close>

text \<open>
  C2, a defect of \<open>analyzeEntropy\<close>: its first \<open>return\<close>, for fewer than four
  points, has no \<open>normalizedEntropy\<close>, which its second one (no direction) has. At a
  click, a press and a release with no move, \<open>entropy.normalizedEntropy\<close> is
  \<open>undefined\<close>: the entropy feature of the vector given to \<open>predict\<close> is
  \<open>NaN\<close>, and the result emitted to the subscriber has
  \<open>analysisDetails.entropy\<close> undefined.
\<close>

theorem entropy_feature_of_a_click:
  "map_option (\<lambda>a. map_of (a_inputs a) ''entropy'')
     (analyse (pressed0\<lparr> isTracking := False \<rparr>) (Fin 150) rect0) = Some (Some NaN)
   \<and> map_option (\<lambda>(s', calls). map (\<lambda>(cb, r). (cb, entropy (analysisDetails r))) calls)
       (dispatch pressed0 MouseUp clock2 rect0) = Some [(1, None)]"
proof -
  let ?s = "pressed0\<lparr> isTracking := False \<rparr>"
  have len: "length (points ?s) < 4" by (simp add: pressed0_eval)
  obtain a where a: "analyse ?s (Fin 150) rect0 = Some a"
    using analyse_total [of ?s "Fin 150" rect0] by auto
  have one: "map_option (\<lambda>a. map_of (a_inputs a) ''entropy'') (analyse ?s (Fin 150) rect0)
               = Some (Some NaN)"
    using entropy_feature_short(1) [OF a len] by (simp add: a)
  obtain s' r calls where f: "finalize ?s (Fin 150) rect0 = Some (s', r, calls)"
    using finalize_total [of ?s "Fin 150" rect0] by (cases "finalize ?s (Fin 150) rect0") auto
  from finalize_fields [OF f] a
  have d: "entropy (analysisDetails r) = normalizedEntropy (a_entropy a)"
    and c: "calls = emit s' ''result'' r"
    and l: "listeners s' = listeners ?s"
    by auto
  have e: "entropy (analysisDetails r) = None"
    using d entropy_feature_short(2) [OF a len] by simp
  have calls: "calls = [(1, r)]"
    unfolding c emit_def l by (simp add: pressed0_eval engine0_def)
  have t: "isTracking pressed0 \<and> lastInputSource pressed0 = Some ''mouse''"
    by (simp add: pressed0_eval)
  have two: "dispatch pressed0 MouseUp clock2 rect0 = Some (s', calls)"
    using t f by (simp add: handleEnd_def clock2_def)
  show ?thesis
    using one two calls e by simp
qed

text \<open>
  C3: \<open>finalize\<close> is a function of its inputs. Its first run writes the resolved input
  type, the perceptron reference, \<open>lastZ\<close> and \<open>lastP\<close>, and resets
  \<open>t_entry\<close>. Run again on the engine it left, with the entry timestamp of the gesture
  context put back, at the same release time and target rectangle, it returns the same
  result and makes the same calls to the subscribers.
\<close>

theorem finalize_twice:
  assumes "finalize s now rect = Some (s', r, calls)"
  shows "\<exists>s''. finalize (s'\<lparr> t_entry := t_entry s \<rparr>) now rect = Some (s'', r, calls)"
proof -
  from finalize_fields [OF assms] obtain a :: analysis where
    g: "s' = set_nn (s\<lparr> Vhum.inputType := a_inputType a,
                              nn := (if a_inputType a = TOUCH then NnTouch else NnMouse),
                              t_entry := Fin 0 \<rparr>)
                      (fst (predict (the_nn (s\<lparr> Vhum.inputType := a_inputType a,
                              nn := (if a_inputType a = TOUCH then NnTouch else NnMouse),
                              t_entry := Fin 0 \<rparr>)) (a_inputs a)))"
    by blast
  have w: "weights (nnMouse s') = weights (nnMouse s) \<and> bias (nnMouse s') = bias (nnMouse s)
         \<and> weights (nnTouch s') = weights (nnTouch s) \<and> bias (nnTouch s') = bias (nnTouch s)"
    unfolding g by (simp add: set_nn_def the_nn_def predict_keeps)
  have "map_option snd (finalize (s'\<lparr> t_entry := t_entry s \<rparr>) now rect)
          = map_option snd (finalize s now rect)"
    by (rule finalize_depends_only_on_inputs) (use w in \<open>simp_all add: g\<close>)
  with assms show ?thesis by (auto simp: map_option_case split: option.splits)
qed

text \<open>C3 at the release of the example gesture, whose entry timestamp is 40.\<close>

theorem finalize_twice_witness:
  "t_entry moved0 = Fin 40
   \<and> (\<exists>s' r calls s''.
         finalize moved0 (Fin 150) rect0 = Some (s', r, calls)
         \<and> t_entry s' = Fin 0
         \<and> finalize (s'\<lparr> t_entry := Fin 40 \<rparr>) (Fin 150) rect0 = Some (s'', r, calls))"
proof -
  have t: "t_entry moved0 = Fin 40" by (simp add: moved0_eval)
  obtain s' r calls where f: "finalize moved0 (Fin 150) rect0 = Some (s', r, calls)"
    using finalize_total [of moved0 "Fin 150" rect0]
    by (cases "finalize moved0 (Fin 150) rect0") auto
  from finalize_fields [OF f] have z: "t_entry s' = Fin 0" by auto
  from finalize_twice [OF f] t f z show ?thesis by simp
qed

text \<open>
  C4, a defect of \<open>checkTemporalPrecision\<close>: it divides by \<open>meanDt\<close>, the mean of
  the time deltas, and floors neither the deltas nor the mean, as the other extractors
  floor theirs (\<open>Math.max(8, ...)\<close>). On five samples with one timestamp the mean is
  \<open>0\<close>: \<open>variance\<close> is \<open>0 / 0 = NaN\<close> and \<open>meanDtHz\<close> is
  \<open>1000 / 0 = Infinity\<close>.
\<close>

theorem temporal_precision_of_equal_timestamps:
  "checkTemporalPrecision same5 =
     Some \<lparr> score = Fin 0.5, isSuspicious = False, perfectSync = Fin 0, variance = NaN,
            meanDt = Some (Fin 0), meanDtHz = Some PInf \<rparr>"
proof -
  have len: "length same5 = 5" by (simp add: same5_def)
  have upt: "[1..<5] = [1, 2, 3, 4]" by (simp add: upt_rec)
  have dts: "loop 1 (length same5) (\<lambda>i. pt (same5 ! i) - pt (same5 ! (i - 1)))
             = [Fin 0, Fin 0, Fin 0, Fin 0]"
    by (simp add: len loop_def upt same5_def jsnum_ops)
  have sync: "foldl
              (\<lambda>n dt. foldl
                 (\<lambda>n rate. if Math_abs (dt - rate) < Fin 0.5
                                \<or> Math_abs (dt - rate * Fin 2) < Fin 0.5
                             then n + 1 else n)
                 n refreshRates)
              (0::nat) [Fin 0, Fin 0, Fin 0, Fin 0] = 0"
    by (simp add: refreshRates_def jsnum_ops)
  have mean: "reduce1 (\<lambda>a b. a + b) [Fin 0, Fin 0, Fin 0, Fin 0] = Some (Fin 0)"
    by (simp add: jsnum_ops)
  show ?thesis
    unfolding checkTemporalPrecision_def dts Let_def sync mean
    by (simp add: len) (simp add: num_def jsnum_ops sumSq_def numeral_2_eq_2)
qed

text \<open>
  C7: \<open>finalize\<close> always returns a result. Its verdict is \<open>0\<close> (bot) exactly
  when the probability that \<open>predict\<close> returned (\<open>lastP\<close>, of which
  \<open>probability\<close> is the rounding to four decimals) is greater than the threshold
  used, and \<open>1\<close> (human) otherwise; the threshold used is \<open>thresholdTouch\<close> when
  the resolved input type is \<open>TOUCH\<close> and \<open>thresholdMouse\<close> otherwise. With
  no input source and fewer than 10 points the input type is \<open>UNKNOWN\<close> and the
  threshold is \<open>thresholdMouse\<close>. The thresholds of an engine built with no option
  are 0.68 (mouse) and 0.62 (touch).
\<close>

theorem verdict_by_threshold:
  "\<exists>s' r calls p.
     finalize s now rect = Some (s', r, calls)
     \<and> lastP (the_nn s') = Some p
     \<and> probability r = Math_round (p * Fin 10000) / Fin 10000
     \<and> verdict r = (if p > thresholdUsed r then 0 else 1)
     \<and> thresholdUsed r = (if Result.inputType r = TOUCH then thresholdTouch (options s)
                          else thresholdMouse (options s))
     \<and> detect (points s) (lastInputSource s) = Some (Result.inputType r)
     \<and> (lastInputSource s = None \<and> length (points s) < 10
          \<longrightarrow> Result.inputType r = UNKNOWN \<and> thresholdUsed r = thresholdMouse (options s))
     \<and> calls = emit s ''result'' r
     \<and> map_option options
          (new_Vhum \<lparr> givenThresholdMouse = None, givenThresholdTouch = None \<rparr> True True)
         = Some \<lparr> thresholdMouse = Fin 0.68, thresholdTouch = Fin 0.62 \<rparr>"
proof -
  obtain s' r calls where f: "finalize s now rect = Some (s', r, calls)"
    using finalize_total [of s now rect] by (cases "finalize s now rect") auto
  from finalize_fields [OF f] obtain a where a: "analyse s now rect = Some a"
    and s': "s' = set_nn (s\<lparr> Vhum.inputType := a_inputType a,
                              nn := (if a_inputType a = TOUCH then NnTouch else NnMouse),
                              t_entry := Fin 0 \<rparr>)
                      (fst (predict (the_nn (s\<lparr> Vhum.inputType := a_inputType a,
                              nn := (if a_inputType a = TOUCH then NnTouch else NnMouse),
                              t_entry := Fin 0 \<rparr>)) (a_inputs a)))"
    and ty: "Result.inputType r = a_inputType a"
    and thr: "thresholdUsed r = (if a_inputType a = TOUCH then thresholdTouch (options s)
                                 else thresholdMouse (options s))"
    and v: "verdict r = (if snd (predict (the_nn (s\<lparr> Vhum.inputType := a_inputType a,
                              nn := (if a_inputType a = TOUCH then NnTouch else NnMouse),
                              t_entry := Fin 0 \<rparr>)) (a_inputs a)) > thresholdUsed r then 0 else 1)"
    and pr: "probability r = Math_round (snd (predict (the_nn (s\<lparr> Vhum.inputType := a_inputType a,
                              nn := (if a_inputType a = TOUCH then NnTouch else NnMouse),
                              t_entry := Fin 0 \<rparr>)) (a_inputs a)) * Fin 10000) / Fin 10000"
    and c: "calls = emit s' ''result'' r"
    by blast
  let ?p = "snd (predict (the_nn (s\<lparr> Vhum.inputType := a_inputType a,
                              nn := (if a_inputType a = TOUCH then NnTouch else NnMouse),
                              t_entry := Fin 0 \<rparr>)) (a_inputs a))"
  have lp: "lastP (the_nn s') = Some ?p"
    unfolding s' by (simp add: predict_lastP)
  have d: "detect (points s) (lastInputSource s) = Some (Result.inputType r)"
    using analyse_fields(1) [OF a] ty by simp
  have u: "lastInputSource s = None \<and> length (points s) < 10
          \<longrightarrow> Result.inputType r = UNKNOWN \<and> thresholdUsed r = thresholdMouse (options s)"
    using d thr ty by (auto simp: detect_unknown)
  have l: "listeners s' = listeners s" unfolding s' by simp
  have c': "calls = emit s ''result'' r"
    unfolding c emit_def l ..
  have dflt: "map_option options
          (new_Vhum \<lparr> givenThresholdMouse = None, givenThresholdTouch = None \<rparr> True True)
         = Some \<lparr> thresholdMouse = Fin 0.68, thresholdTouch = Fin 0.62 \<rparr>"
    by (simp add: new_Vhum_def)
  show ?thesis
    using f lp pr v thr ty d u c' dflt by (intro exI [of _ s'] exI [of _ r] exI [of _ calls] exI [of _ ?p]) simp
qed

text \<open>C7 at a press with no input source: one point, input type \<open>UNKNOWN\<close>, the
  mouse threshold 0.68, and one call to the subscriber.\<close>

theorem verdict_by_threshold_witness:
  "lastInputSource anon0 = None \<and> length (points anon0) < 10
   \<and> (\<exists>s' r calls p.
         finalize anon0 (Fin 150) rect0 = Some (s', r, calls)
         \<and> lastP (the_nn s') = Some p
         \<and> verdict r = (if p > Fin 0.68 then 0 else 1)
         \<and> Result.inputType r = UNKNOWN
         \<and> thresholdUsed r = Fin 0.68
         \<and> calls = [(1, r)])"
proof -
  have e: "anon0 = engine0\<lparr> t_down := Fin 100, isTracking := True,
                 points := [\<lparr> px = Fin 10, py = Fin 20, pt = Fin 100 \<rparr>] \<rparr>"
    by (simp add: anon0_def handleStart_def addPoint_def press0_def)
  have h: "lastInputSource anon0 = None \<and> length (points anon0) < 10"
    by (simp add: e engine0_def)
  have o: "thresholdMouse (options anon0) = Fin 0.68" by (simp add: e engine0_def)
  have l: "listeners anon0 ''result'' = Some [1]" by (simp add: e engine0_def)
  from verdict_by_threshold [of anon0 "Fin 150" rect0] h o l
  show ?thesis by (auto simp: emit_def)
qed

text \<open>
  C8: for a finite entry position, entry and release time and target rectangle, the
  rectangle of non-negative width and height, the Fitts's-law check of \<open>finalize\<close>
  computes \<open>D\<close>, the Euclidean distance from the entry position to the centre of the
  target, \<open>W\<close>, the smaller of its width and height, the index of difficulty
  \<open>max(0, log2(2D/(W+1) + 1))\<close> and the expected time \<open>(ID / throughput) * 1000\<close>,
  and flags a violation exactly when release time minus entry time is less than the
  modality's fraction of the expected time. The throughput is larger for the pointer (4)
  than for touch (2.5), the fraction smaller for touch (0.35) than for the pointer (0.6);
  the input type \<open>UNKNOWN\<close> has the pointer's constants.
\<close>

theorem fitts_check:
  assumes a: "analyse s (Fin tu) rect = Some a"
    and entry: "entry_pos s = (Fin ex, Fin ey)" "t_entry s = Fin te"
    and rect: "rect = \<lparr> left = Fin l, top' = Fin tp, width = Fin w, height = Fin h \<rparr>"
    and size: "0 \<le> w" "0 \<le> h"
    and D: "D = sqrt ((l + w / 2 - ex)\<^sup>2 + (tp + h / 2 - ey)\<^sup>2)"
    and W: "W = min w h"
  shows "a_D a = Fin D \<and> a_W a = Fin W
         \<and> a_ID a = Fin (spec_ID D W)
         \<and> a_timeExpectedFitts a = Fin (spec_expectedTime (a_inputType a) D W)
         \<and> a_movementTime a = Fin (tu - te)
         \<and> (a_fittsViolation a
              \<longleftrightarrow> tu - te < spec_fraction (a_inputType a) * spec_expectedTime (a_inputType a) D W)
         \<and> map_of (a_inputs a) ''fitts'' = Some (if a_fittsViolation a then Fin 1 else Fin 0)
         \<and> spec_throughput TOUCH < spec_throughput MOUSE
         \<and> spec_throughput UNKNOWN = spec_throughput MOUSE
         \<and> spec_fraction TOUCH < spec_fraction MOUSE
         \<and> spec_fraction UNKNOWN = spec_fraction MOUSE"
proof -
  note f = analyse_fields [OF a]
  have aD: "a_D a = Fin D"
    unfolding f(7) rect entry D by (simp add: jsnum_ops power2_eq_square)
  have aW: "a_W a = Fin W"
    unfolding f(8) rect W by (simp add: min_def)
  have D0: "0 \<le> D" unfolding D by simp
  have W0: "0 \<le> W" unfolding W using size by simp
  have aID: "a_ID a = Fin (spec_ID D W)"
    unfolding f(9) aD aW by (rule fitts_ID_Fin [OF D0 W0])
  have aT: "a_timeExpectedFitts a = Fin (spec_expectedTime (a_inputType a) D W)"
    unfolding f(10) aID fitts_time_Fin by (simp add: spec_expectedTime_def)
  have aM: "a_movementTime a = Fin (tu - te)"
    unfolding f(6) entry by (simp add: jsnum_ops)
  have aV: "a_fittsViolation a
              \<longleftrightarrow> tu - te < spec_fraction (a_inputType a) * spec_expectedTime (a_inputType a) D W"
    unfolding f(11) aM aT by (rule fitts_violation_Fin)
  have aI: "map_of (a_inputs a) ''fitts'' = Some (if a_fittsViolation a then Fin 1 else Fin 0)"
    unfolding f(18) by (simp add: flag_def)
  show ?thesis
    using aD aW aID aT aM aV aI by (simp add: spec_throughput_def spec_fraction_def)
qed

text \<open>C8 at the release of the pressed example gesture: \<open>D = 10\<close>, \<open>W = 20\<close>,
  movement time 110.\<close>

theorem fitts_check_witness:
  "a_D (the (analyse pressed0 (Fin 150) rect0)) = Fin 10
   \<and> a_W (the (analyse pressed0 (Fin 150) rect0)) = Fin 20
   \<and> a_ID (the (analyse pressed0 (Fin 150) rect0)) = Fin (spec_ID 10 20)
   \<and> a_movementTime (the (analyse pressed0 (Fin 150) rect0)) = Fin 110
   \<and> a_inputType (the (analyse pressed0 (Fin 150) rect0)) = MOUSE
   \<and> a_fittsViolation (the (analyse pressed0 (Fin 150) rect0))
       = (110 < 0.6 * (spec_ID 10 20 / 4 * 1000))"
proof -
  obtain a where a: "analyse pressed0 (Fin 150) rect0 = Some a"
    using analyse_total [of pressed0 "Fin 150" rect0] by auto
  have e: "entry_pos pressed0 = (Fin 4, Fin 2)" "t_entry pressed0 = Fin 40"
    by (simp_all add: pressed0_eval)
  have r: "rect0 = \<lparr> left = Fin 0, top' = Fin 0, width = Fin 20, height = Fin 20 \<rparr>"
    by (simp add: rect0_def)
  have sq: "(0 + 20 / 2 - 4)\<^sup>2 + (0 + 20 / 2 - 2)\<^sup>2 = (10::real)\<^sup>2"
    by (simp add: power2_eq_square)
  have D: "10 = sqrt ((0 + 20 / 2 - 4)\<^sup>2 + (0 + 20 / 2 - 2)\<^sup>2)"
    unfolding sq by simp
  have W: "(20::real) = min 20 20" by simp
  have s: "(0::real) \<le> 20" by simp
  have ty: "a_inputType a = MOUSE"
    using analyse_fields(1) [OF a] by (simp add: pressed0_eval detect_def)
  from fitts_check [OF a e r s s D W] ty
  show ?thesis by (simp add: a spec_fraction_def spec_expectedTime_def spec_throughput_def)
qed

text \<open>
  C9: on a perceptron that holds one of the two presets, for every feature vector, real
  values for features among the ten named ones, \<open>predict\<close> returns
  \<open>sigmoid(clamp(bias + \<Sum> weight[feature] * featureValue[feature], -100, 100))\<close>.
  It writes \<open>lastZ\<close> and \<open>lastP\<close> only: on any inputs the weights and the bias
  are as before. A perceptron is constructed with the preset of its input type, which is
  the touch preset or the mouse preset.
\<close>

theorem predict_linear_scorer:
  assumes "(weights q, bias q) = initializeWeights ty" and "distinct (map fst xs)"
    and "set (map fst xs) \<subseteq> set featureNames"
  shows "predict q (Fins xs)
           = (q\<lparr> lastZ := Some (Fin (spec_z (presetBias ty) (presetWeights ty) xs)),
                  lastP := Some (Fin (spec_probability (presetBias ty) (presetWeights ty) xs)) \<rparr>,
              Fin (spec_probability (presetBias ty) (presetWeights ty) xs))
         \<and> weights (fst (predict q inputs)) = weights q
         \<and> bias (fst (predict q inputs)) = bias q
         \<and> (weights (new_AdaptivePerceptron ty), bias (new_AdaptivePerceptron ty))
             = initializeWeights ty
         \<and> (initializeWeights ty = initializeWeights TOUCH
              \<or> initializeWeights ty = initializeWeights MOUSE)"
proof -
  from assms(1) have w: "weights q = Fins (presetWeights ty)" and b: "bias q = Fin (presetBias ty)"
    by (simp_all add: initializeWeights_preset)
  have "set (map fst (presetWeights ty)) = set featureNames"
    by (simp only: presetWeights_names)
  with assms(3) have names: "fst ` set xs \<subseteq> fst ` set (presetWeights ty)"
    by simp
  have keep: "weights (fst (predict q inputs)) = weights q \<and> bias (fst (predict q inputs)) = bias q"
    by (simp add: predict_def Let_def)
  have two: "initializeWeights ty = initializeWeights TOUCH
              \<or> initializeWeights ty = initializeWeights MOUSE"
    by (cases ty) (simp_all add: initializeWeights_def)
  show ?thesis
    using predict_Fins [OF w b assms(2) names] keep two by (simp add: new_AdaptivePerceptron_def)
qed

text \<open>C9 at the mouse perceptron and the features \<open>fitts = 1\<close>, \<open>jitter = 1\<close>:
  \<open>z = -3.2 + 2.2 + 0.9\<close>.\<close>

theorem predict_linear_scorer_witness:
  "predict (new_AdaptivePerceptron MOUSE) (Fins features0)
     = (new_AdaptivePerceptron MOUSE
          \<lparr> lastZ := Some (Fin (- 0.1)), lastP := Some (Fin (1 / (1 + exp 0.1))) \<rparr>,
        Fin (1 / (1 + exp 0.1)))"
proof -
  have h1: "(weights (new_AdaptivePerceptron MOUSE), bias (new_AdaptivePerceptron MOUSE))
              = initializeWeights MOUSE"
    by (simp add: new_AdaptivePerceptron_def)
  have h2: "distinct (map fst features0)" by (simp add: features0_def)
  have h3: "set (map fst features0) \<subseteq> set featureNames"
    by (simp add: features0_def featureNames_def)
  have z: "spec_z (presetBias MOUSE) (presetWeights MOUSE) features0 = - 0.1"
    by (simp add: spec_z_def presetBias_def presetWeights_def features0_def spec_weight_def)
  have p: "spec_probability (presetBias MOUSE) (presetWeights MOUSE) features0 = 1 / (1 + exp 0.1)"
    unfolding spec_probability_def z by (simp add: spec_clamp_def spec_sigmoid_def)
  from predict_linear_scorer [OF h1 h2 h3, of "[]"]
  show ?thesis by (simp add: z p)
qed

end
